theory Spec2Isabelle
  imports Complex_Main
begin

section \<open>JavaScript strings and numbers\<close>

text \<open>
  A JavaScript string is a sequence of UTF-16 code units; the model keeps each code unit
  as a natural number, so that the test of the source for a code unit from U+4E00 to
  U+9FA5 is a comparison of numbers. \<open>js\<close> turns an ASCII literal of the source into such a string.

  A JavaScript number is modelled as \<open>int option\<close>: \<open>None\<close> is \<^verbatim>\<open>NaN\<close>, \<open>Some n\<close> the
  integer \<open>n\<close>. The numbers of the modelled code are counts and identifiers; the model is
  exact below \<open>2 ^ 53\<close>, where a double holds every integer.
\<close>

type_synonym jsstring = "nat list"

type_synonym jsnum = "int option"

definition js :: "string \<Rightarrow> jsstring" where
  "js s = map of_char s"

text \<open>The outcome of an awaited call: the promise rejects with an error of the given
  message, or it resolves with a value.\<close>

datatype 'a fetched = Threw jsstring | Returned 'a

text \<open>\<^verbatim>\<open>encodeURIComponent\<close> throws a URIError on a string with a lone surrogate and
  encodes every other string.\<close>

fun encodable :: "jsstring \<Rightarrow> bool" where
  "encodable [] = True"
| "encodable [c] = (\<not> (55296 \<le> c \<and> c \<le> 57343))"
| "encodable (c # d # ds) =
     (if 55296 \<le> c \<and> c \<le> 56319 then 56320 \<le> d \<and> d \<le> 57343 \<and> encodable ds
      else if 56320 \<le> c \<and> c \<le> 57343 then False
      else encodable (d # ds))"


section \<open>String methods\<close>

text \<open>\<^verbatim>\<open>s.startsWith(k)\<close>, \<^verbatim>\<open>s.includes(k)\<close>, \<^verbatim>\<open>s.endsWith(k)\<close> and
  \<^verbatim>\<open>xs.join(sep)\<close>.\<close>

fun startsWith :: "jsstring \<Rightarrow> jsstring \<Rightarrow> bool" where
  "startsWith s [] = True"
| "startsWith [] (k # ks) = False"
| "startsWith (c # cs) (k # ks) = (c = k \<and> startsWith cs ks)"

fun includesStr :: "jsstring \<Rightarrow> jsstring \<Rightarrow> bool" where
  "includesStr [] k = (k = [])"
| "includesStr (c # cs) k = (startsWith (c # cs) k \<or> includesStr cs k)"

definition endsWith :: "jsstring \<Rightarrow> jsstring \<Rightarrow> bool" where
  "endsWith s k = startsWith (rev s) (rev k)"

fun join :: "jsstring list \<Rightarrow> jsstring \<Rightarrow> jsstring" where
  "join [] sep = []"
| "join [x] sep = x"
| "join (x # y # ys) sep = x @ sep @ join (y # ys) sep"

text \<open>The decimal digits \<^verbatim>\<open>0\<close> to \<^verbatim>\<open>9\<close>, and the number that a string of digits
  denotes.\<close>

definition isDigit :: "nat \<Rightarrow> bool" where
  "isDigit c = (48 \<le> c \<and> c \<le> 57)"

definition decimal :: "jsstring \<Rightarrow> int" where
  "decimal s = foldl (\<lambda>a c. 10 * a + (int c - 48)) 0 s"

text \<open>
  \<^verbatim>\<open>String.prototype.toLowerCase\<close> is a function of the platform (the Unicode case
  mapping): the classifier takes it as the parameter \<open>lower\<close>, and its properties are
  proved for every such function. \<open>asciiLower\<close> is the mapping on strings of ASCII and
  of characters without case, used for the concrete runs.
\<close>

definition asciiLower :: "jsstring \<Rightarrow> jsstring" where
  "asciiLower s = map (\<lambda>c. if 65 \<le> c \<and> c \<le> 90 then c + 32 else c) s"

subsection \<open>The regular expressions of the source\<close>

text \<open>
  A pattern with the flag \<^verbatim>\<open>i\<close> and without the flag \<^verbatim>\<open>u\<close> compares canonical
  characters: the upper-case form of a code unit, except that a code unit from 128 on is
  never mapped below 128. The literals of the patterns are ASCII letters, ASCII signs and
  CJK ideographs, so a code unit matches a literal exactly when both are equal after the
  ASCII letters are put in upper case.
\<close>

definition canonicalize :: "nat \<Rightarrow> nat" where
  "canonicalize c = (if 97 \<le> c \<and> c \<le> 122 then c - 32 else c)"

fun ciStartsWith :: "jsstring \<Rightarrow> jsstring \<Rightarrow> bool" where
  "ciStartsWith s [] = True"
| "ciStartsWith [] (k # ks) = False"
| "ciStartsWith (c # cs) (k # ks) = (canonicalize c = canonicalize k \<and> ciStartsWith cs ks)"

text \<open>The dot matches every code unit but the line terminators.\<close>

definition lineTerminator :: "nat \<Rightarrow> bool" where
  "lineTerminator c = (c = 10 \<or> c = 13 \<or> c = 8232 \<or> c = 8233)"

text \<open>\<open>dotsThen b s\<close>: \<^verbatim>\<open>.*?b\<close> matches at the start of \<open>s\<close>.\<close>

fun dotsThen :: "jsstring \<Rightarrow> jsstring \<Rightarrow> bool" where
  "dotsThen b [] = ciStartsWith [] b"
| "dotsThen b (c # cs) =
     (ciStartsWith (c # cs) b \<or> (\<not> lineTerminator c \<and> dotsThen b cs))"

text \<open>\<open>testSeq a b s\<close>: \<^verbatim>\<open>/a.*?b/i.test(s)\<close>, a match may start at any position.\<close>

fun testSeq :: "jsstring \<Rightarrow> jsstring \<Rightarrow> jsstring \<Rightarrow> bool" where
  "testSeq a b [] = (ciStartsWith [] a \<and> dotsThen b (drop (length a) []))"
| "testSeq a b (c # cs) =
     ((ciStartsWith (c # cs) a \<and> dotsThen b (drop (length a) (c # cs))) \<or> testSeq a b cs)"

section \<open>Relay Client: \<^verbatim>\<open>fetchWithProxy\<close>\<close>

text \<open>
  The URL of a request, built from the target URL, the time stamp appended against
  caches and the address of the relay, only names the request and is not modelled.
  What one relay does with the request is an input of the model. \<^verbatim>\<open>fetch(url)\<close> rejects
  with an error (\<open>NetworkError\<close> and its message) or resolves with a response, of which
  the source reads \<^verbatim>\<open>ok\<close>, \<^verbatim>\<open>status\<close> and the outcome of \<^verbatim>\<open>json()\<close>.
\<close>

datatype 'b http = NetworkError jsstring | Response bool nat 'b

text \<open>
  The outcome of \<^verbatim>\<open>response.json()\<close> for the first relay, which wraps the payload:
  the call rejects (\<open>BadJson\<close> and the message), or the body is \<^verbatim>\<open>null\<close>, so that reading
  \<^verbatim>\<open>data.status\<close> throws a TypeError (\<open>NoObject\<close> and the message), or it is a value with
  the fields \<^verbatim>\<open>status.http_code\<close> and \<^verbatim>\<open>contents\<close>, each \<open>None\<close> when missing.
  For the other relays \<^verbatim>\<open>json()\<close> rejects with a message (\<open>Inl\<close>) or gives the payload.
\<close>

datatype envelope = BadJson jsstring | NoObject jsstring | Envelope "nat option" "jsstring option"

text \<open>The value \<^verbatim>\<open>fetchWithProxy\<close> resolves with: parsed JSON, or the raw text of the
  envelope's contents when it is no JSON.\<close>

datatype 'j payload = Json 'j | Text jsstring

text \<open>The result of one strategy: the message of the error its \<^verbatim>\<open>try\<close> block threw, or
  the value it returned.\<close>

datatype 'a attempt = Failed jsstring | Got 'a

text \<open>The decimal digits of a number, as a template literal prints it.\<close>

function showNat :: "nat \<Rightarrow> jsstring" where
  "showNat n = (if n < 10 then [48 + n] else showNat (n div 10) @ [48 + n mod 10])"
  by pat_completeness auto
termination
  by (relation "measure id") auto

declare showNat.simps [simp del]

text \<open>The end of strategy 1: \<^verbatim>\<open>if (!data.contents) throw ...\<close>, then
  \<^verbatim>\<open>JSON.parse(data.contents)\<close> or, when that throws, the contents as they are.
  \<open>parse\<close> is \<^verbatim>\<open>JSON.parse\<close>, \<open>None\<close> when it throws.\<close>

definition allOriginsContents ::
  "(jsstring \<Rightarrow> 'j option) \<Rightarrow> jsstring option \<Rightarrow> 'j payload attempt" where
  "allOriginsContents parse contents =
     (case contents of
        None \<Rightarrow> Failed (js ''Empty response content'')
      | Some s \<Rightarrow>
          (if s = [] then Failed (js ''Empty response content'')
           else (case parse s of None \<Rightarrow> Got (Text s) | Some j \<Rightarrow> Got (Json j))))"

text \<open>Strategy 1 (\<^verbatim>\<open>api.allorigins.win\<close>) up to the contents.\<close>

definition allOrigins ::
  "(jsstring \<Rightarrow> 'j option) \<Rightarrow> envelope http \<Rightarrow> 'j payload attempt" where
  "allOrigins parse r =
     (case r of
        NetworkError m \<Rightarrow> Failed m
      | Response ok status body \<Rightarrow>
          (if \<not> ok then Failed (js ''Status '' @ showNat status)
           else
             (case body of
                BadJson m \<Rightarrow> Failed m
              | NoObject m \<Rightarrow> Failed m
              | Envelope http_code contents \<Rightarrow>
                  (case http_code of
                     Some c \<Rightarrow>
                       (if c \<noteq> 0 \<and> c \<noteq> 200 \<and> c \<noteq> 404
                        then Failed (js ''Upstream error: '' @ showNat c)
                        else allOriginsContents parse contents)
                   | None \<Rightarrow> allOriginsContents parse contents))))"

text \<open>Strategies 2 and 3 (\<^verbatim>\<open>corsproxy.io\<close>, \<^verbatim>\<open>api.codetabs.com\<close>).\<close>

definition direct :: "(jsstring + 'j) http \<Rightarrow> 'j payload attempt" where
  "direct r =
     (case r of
        NetworkError m \<Rightarrow> Failed m
      | Response ok status body \<Rightarrow>
          (if \<not> ok then Failed (js ''Status '' @ showNat status)
           else (case body of Inl m \<Rightarrow> Failed m | Inr j \<Rightarrow> Got (Json j))))"

text \<open>The message of the error thrown after the last strategy; the source writes it in
  Chinese (network connection failed, no relay service answers, retry later).\<close>

definition proxyError :: jsstring where
  "proxyError =
     [0x7f51, 0x7edc, 0x8fde, 0x63a5, 0x5931, 0x8d25, 0xff1a, 0x6240, 0x6709, 0x4ee3, 0x7406,
      0x670d, 0x52a1, 0x5747, 0x65e0, 0x54cd, 0x5e94, 0xff0c, 0x8bf7, 0x7a0d, 0x540e, 0x91cd,
      0x8bd5, 0x3002]"

text \<open>
  \<^verbatim>\<open>fetchWithProxy(targetUrl)\<close>, given what each relay does when it is tried. The result
  is the array \<^verbatim>\<open>errors\<close> of recorded failure reasons, the argument of
  \<^verbatim>\<open>console.error\<close> when it is called (\<open>None\<close> when not), and the outcome: \<open>Inl\<close> the
  message of the thrown error, \<open>Inr\<close> the returned payload.
\<close>

record 'j proxy_result =
  errors :: "jsstring list"
  console :: "jsstring list option"
  outcome :: "jsstring + 'j payload"

definition fetchWithProxy ::
  "(jsstring \<Rightarrow> 'j option) \<Rightarrow> envelope http \<Rightarrow> (jsstring + 'j) http \<Rightarrow> (jsstring + 'j) http
     \<Rightarrow> 'j proxy_result" where
  "fetchWithProxy parse r1 r2 r3 =
     (case allOrigins parse r1 of
        Got v \<Rightarrow> \<lparr>errors = [], console = None, outcome = Inr v\<rparr>
      | Failed m1 \<Rightarrow>
          (case direct r2 of
             Got v \<Rightarrow> \<lparr>errors = [js ''AllOrigins: '' @ m1], console = None, outcome = Inr v\<rparr>
           | Failed m2 \<Rightarrow>
               (case direct r3 of
                  Got v \<Rightarrow>
                    \<lparr>errors = [js ''AllOrigins: '' @ m1, js ''CorsProxy: '' @ m2],
                     console = None, outcome = Inr v\<rparr>
                | Failed m3 \<Rightarrow>
                    \<lparr>errors = [js ''AllOrigins: '' @ m1, js ''CorsProxy: '' @ m2,
                               js ''CodeTabs: '' @ m3],
                     console = Some [js ''AllOrigins: '' @ m1, js ''CorsProxy: '' @ m2,
                                     js ''CodeTabs: '' @ m3],
                     outcome = Inl proxyError\<rparr>)))"

text \<open>A relay that answers with the HTTP status 500, for each kind of strategy.\<close>

definition status500 :: "'b \<Rightarrow> 'b http" where
  "status500 body = Response False 500 body"

section \<open>Review Fetcher: \<^verbatim>\<open>fetchReviews\<close>\<close>

text \<open>
  One page of the review feed as the relay returns it: \<^verbatim>\<open>data.success\<close>,
  \<^verbatim>\<open>data.reviews\<close> (\<open>None\<close> when the field is missing) and \<^verbatim>\<open>data.cursor\<close>
  (\<open>None\<close> when missing). The payload itself may be falsy (\<open>None\<close>).

  The network is a parameter: \<open>net appId i cursor\<close> is the outcome of the call
  \<^verbatim>\<open>fetchWithProxy(targetUrl)\<close> of iteration \<open>i\<close>, whose URL is built from \<open>appId\<close> and
  the current cursor.
\<close>

record 'r reviews_page =
  success :: int
  reviews :: "'r list option"
  cursor :: "jsstring option"

type_synonym 'r review_net =
  "jsnum \<Rightarrow> nat \<Rightarrow> jsstring option \<Rightarrow> 'r reviews_page option fetched"

definition batchSize :: int where
  "batchSize = 100"

text \<open>\<^verbatim>\<open>const maxBatches = Math.ceil(limit / batchSize)\<close>\<close>

definition maxBatches :: "int \<Rightarrow> int" where
  "maxBatches limit = \<lceil>real_of_int limit / real_of_int batchSize\<rceil>"

text \<open>The message of the error that the \<^verbatim>\<open>catch\<close> block of \<^verbatim>\<open>fetchReviews\<close> throws.\<close>

definition fetchReviewsError :: jsstring where
  "fetchReviewsError =
     [0x65e0, 0x6cd5, 0x6293, 0x53d6, 0x8bc4, 0x8bba, 0x6570, 0x636e, 0xff0c, 0x8bf7,
      0x68c0, 0x67e5, 0x7f51, 0x7edc, 0x6216, 0x53, 0x74, 0x65, 0x61, 0x6d, 0x670d,
      0x52a1, 0x72b6, 0x6001, 0x3002]"

text \<open>
  \<^verbatim>\<open>!data || data.success !== 1 || !data.reviews || data.reviews.length === 0\<close>:
  the reviews of a page that lets the loop go on, \<open>None\<close> for a page that breaks it.
\<close>

definition pageReviews :: "'r reviews_page option \<Rightarrow> 'r list option" where
  "pageReviews data =
     (case data of
        None \<Rightarrow> None
      | Some p \<Rightarrow>
          (if success p \<noteq> 1 then None
           else case reviews p of
                  None \<Rightarrow> None
                | Some rs \<Rightarrow> if rs = [] then None else Some rs))"

text \<open>The cursor as \<^verbatim>\<open>encodeURIComponent\<close> reads it: a missing cursor is the text
  \<^verbatim>\<open>undefined\<close>.\<close>

definition cursorText :: "jsstring option \<Rightarrow> jsstring" where
  "cursorText c = (case c of None \<Rightarrow> js ''undefined'' | Some s \<Rightarrow> s)"

text \<open>
  The loop \<^verbatim>\<open>for (let i = 0; i < maxBatches; i++)\<close> inside the \<^verbatim>\<open>try\<close> block, from
  iteration \<open>i\<close> with the reviews accumulated so far and the current cursor. It returns
  the outcomes of the requests it issued, in order, and the result of \<^verbatim>\<open>fetchReviews\<close>:
  \<open>Inl\<close> the message of the thrown error, \<open>Inr\<close> the returned list.
\<close>

function reviewLoop ::
  "'r review_net \<Rightarrow> jsnum \<Rightarrow> int \<Rightarrow> nat \<Rightarrow> 'r list \<Rightarrow> jsstring option
     \<Rightarrow> 'r reviews_page option fetched list \<times> (jsstring + 'r list)" where
  "reviewLoop net appId limit i acc cur =
     (if int i < maxBatches limit then
        (if \<not> encodable (cursorText cur) then ([], Inl fetchReviewsError)
         else
           (case net appId i cur of
              Threw e \<Rightarrow> ([Threw e], Inl fetchReviewsError)
            | Returned data \<Rightarrow>
                (case pageReviews data of
                   None \<Rightarrow> ([Returned data], Inr acc)
                 | Some rs \<Rightarrow>
                     (if limit \<le> int (length (acc @ rs)) then ([Returned data], Inr (acc @ rs))
                      else
                        (case reviewLoop net appId limit (Suc i) (acc @ rs)
                                (case data of None \<Rightarrow> None | Some p \<Rightarrow> cursor p) of
                           (tr, res) \<Rightarrow> (Returned data # tr, res))))))
      else ([], Inr acc))"
  by pat_completeness auto
termination
  by (relation "measure (\<lambda>(net, appId, limit, i, acc, cur). nat (maxBatches limit) - i)") auto

declare reviewLoop.simps [simp del]

text \<open>\<^verbatim>\<open>fetchReviews(appId, limit)\<close>: no reviews yet, the cursor \<^verbatim>\<open>'*'\<close>.\<close>

definition fetchReviews ::
  "'r review_net \<Rightarrow> jsnum \<Rightarrow> int
     \<Rightarrow> 'r reviews_page option fetched list \<times> (jsstring + 'r list)" where
  "fetchReviews net appId limit = reviewLoop net appId limit 0 [] (Some (js ''*''))"

text \<open>
  The properties of the fetcher speak about a request through three notions that are
  stated from the response itself, not from the test of the loop: the list of reviews in
  the page of the response (empty when there is none); whether the response meets a stop
  condition, that is, the call threw, or the payload is falsy, or it does not report
  success (\<^verbatim>\<open>success\<close> is not 1), or it has no list of reviews, or the list is empty; and
  the reviews that the request adds to the result, which are those of its page unless it
  meets a stop condition.
\<close>

definition pageList :: "'r reviews_page option fetched \<Rightarrow> 'r list" where
  "pageList out =
     (case out of
        Threw e \<Rightarrow> []
      | Returned data \<Rightarrow>
          (case data of
             None \<Rightarrow> []
           | Some p \<Rightarrow> (case reviews p of None \<Rightarrow> [] | Some rs \<Rightarrow> rs)))"

definition stops :: "'r reviews_page option fetched \<Rightarrow> bool" where
  "stops out =
     (case out of
        Threw e \<Rightarrow> True
      | Returned data \<Rightarrow>
          (case data of
             None \<Rightarrow> True
           | Some p \<Rightarrow> success p \<noteq> 1 \<or> reviews p = None \<or> reviews p = Some []))"

definition added :: "'r reviews_page option fetched \<Rightarrow> 'r list" where
  "added out = (if stops out then [] else pageList out)"

text \<open>The upstream never puts more than the requested 100 reviews into one page.\<close>

definition honoursPageSize :: "'r review_net \<Rightarrow> jsnum \<Rightarrow> bool" where
  "honoursPageSize net appId =
     (\<forall>i cur p rs. net appId i cur = Returned (Some p) \<longrightarrow> reviews p = Some rs
        \<longrightarrow> int (length rs) \<le> batchSize)"

text \<open>Networks for concrete runs: every page holds 100 reviews; the first page holds
  100 reviews and the second request throws; every page holds 301 reviews; the first page
  holds 100 reviews and the second response reports failure, though it carries a review;
  the first page holds 100 reviews and the second page is empty.\<close>

definition fullPages :: "nat review_net" where
  "fullPages appId i cur =
     Returned (Some \<lparr>success = 1, reviews = Some (replicate 100 i), cursor = Some (js ''AoJ4'')\<rparr>)"

definition failsSecond :: "nat review_net" where
  "failsSecond appId i cur =
     (if i = 0
      then Returned (Some \<lparr>success = 1, reviews = Some (replicate 100 i), cursor = Some (js ''AoJ4'')\<rparr>)
      else Threw (js ''relay failure''))"

definition oversizedPage :: "nat review_net" where
  "oversizedPage appId i cur =
     Returned (Some \<lparr>success = 1, reviews = Some (replicate 301 i), cursor = Some (js ''AoJ4'')\<rparr>)"

definition reportsFailure :: "nat review_net" where
  "reportsFailure appId i cur =
     (if i = 0
      then Returned (Some \<lparr>success = 1, reviews = Some (replicate 100 i), cursor = Some (js ''AoJ4'')\<rparr>)
      else Returned (Some \<lparr>success = 0, reviews = Some [7], cursor = None\<rparr>))"

definition runsDry :: "nat review_net" where
  "runsDry appId i cur =
     (if i = 0
      then Returned (Some \<lparr>success = 1, reviews = Some (replicate 100 i), cursor = Some (js ''AoJ4'')\<rparr>)
      else Returned (Some \<lparr>success = 1, reviews = Some [], cursor = Some (js ''AoJ4'')\<rparr>))"

section \<open>Review filter of \<^verbatim>\<open>ClientApp\<close>\<close>

text \<open>The fields of \<^verbatim>\<open>SteamReview\<close> and \<^verbatim>\<open>FilterCriteria\<close> (\<^verbatim>\<open>types.ts\<close>) that the
  filter and the report read. Playtime is in minutes, the creation time in seconds since
  the epoch, both whole numbers; the hour bounds are any numbers. A number of the source
  is a double, that is, a real number.\<close>

record Author =
  steamid :: jsstring
  playtime_forever :: int

record SteamReview =
  recommendationid :: jsstring
  author :: Author
  review :: jsstring
  timestamp_created :: int
  voted_up :: bool

record FilterCriteria =
  minPlaytimeHours :: real
  maxPlaytimeHours :: real
  startDate :: jsstring
  endDate :: jsstring

text \<open>
  Three functions of the platform are parameters of the filter, so that it is modelled
  with the values the program computes:
  \<^item> \<open>getTime\<close> is \<^verbatim>\<open>new Date(s).getTime()\<close>, the milliseconds since the epoch, or
    \<open>None\<close> for \<^verbatim>\<open>NaN\<close> (an invalid date); every comparison with \<^verbatim>\<open>NaN\<close> is false;
  \<^item> \<open>quot\<close> is the division \<^verbatim>\<open>/\<close> of doubles and \<open>plus\<close> their addition \<^verbatim>\<open>+\<close>,
    which round the exact result to a double.
  The comparisons \<^verbatim>\<open>>=\<close> and \<^verbatim>\<open><=\<close> of doubles are exact.
\<close>

record platform =
  getTime :: "jsstring \<Rightarrow> real option"
  quot :: "real \<Rightarrow> real \<Rightarrow> real"
  plus :: "real \<Rightarrow> real \<Rightarrow> real"

text \<open>\<^verbatim>\<open>new Date(filters.startDate).getTime() / 1000\<close> and
  \<^verbatim>\<open>new Date(filters.endDate).getTime() / 1000 + 86400\<close>.\<close>

definition startTs :: "platform \<Rightarrow> FilterCriteria \<Rightarrow> real option" where
  "startTs pf filters = map_option (\<lambda>ms. quot pf ms 1000) (getTime pf (startDate filters))"

definition endTs :: "platform \<Rightarrow> FilterCriteria \<Rightarrow> real option" where
  "endTs pf filters =
     map_option (\<lambda>ms. plus pf (quot pf ms 1000) 86400) (getTime pf (endDate filters))"

text \<open>The callback of \<^verbatim>\<open>reviews.filter\<close>.\<close>

definition reviewMatches :: "platform \<Rightarrow> FilterCriteria \<Rightarrow> SteamReview \<Rightarrow> bool" where
  "reviewMatches pf filters r =
     (let playtimeHours = quot pf (real_of_int (playtime_forever (author r))) 60;
          isPlaytimeMatch =
            (minPlaytimeHours filters \<le> playtimeHours \<and> playtimeHours \<le> maxPlaytimeHours filters);
          isDateMatch =
            ((case startTs pf filters of
                None \<Rightarrow> False
              | Some s \<Rightarrow> s \<le> real_of_int (timestamp_created r)) \<and>
             (case endTs pf filters of
                None \<Rightarrow> False
              | Some e \<Rightarrow> real_of_int (timestamp_created r) \<le> e))
      in isPlaytimeMatch \<and> isDateMatch)"

text \<open>The effect that computes \<^verbatim>\<open>filteredReviews\<close> from \<^verbatim>\<open>reviews\<close> and \<^verbatim>\<open>filters\<close>.\<close>

definition applyFilters ::
  "platform \<Rightarrow> FilterCriteria \<Rightarrow> SteamReview list \<Rightarrow> SteamReview list" where
  "applyFilters pf filters rs =
     (if length rs = 0 then [] else filter (reviewMatches pf filters) rs)"

text \<open>
  A concrete \<open>getTime\<close> for the runs below: the date-only form \<^verbatim>\<open>YYYY-MM-DD\<close> of the
  ECMAScript date-time string format, which is read as midnight UTC of that day and is
  the form a date input holds. The day number of a date follows the civil calendar.
\<close>

definition daysInMonth :: "int \<Rightarrow> int \<Rightarrow> int" where
  "daysInMonth y m =
     (if m = 2 then (if y mod 4 = 0 \<and> (y mod 100 \<noteq> 0 \<or> y mod 400 = 0) then 29 else 28)
      else if m = 4 \<or> m = 6 \<or> m = 9 \<or> m = 11 then 30 else 31)"

definition daysFromCivil :: "int \<Rightarrow> int \<Rightarrow> int \<Rightarrow> int" where
  "daysFromCivil y m d =
     (let y' = (if m \<le> 2 then y - 1 else y);
          era = y' div 400;
          yoe = y' - era * 400;
          doy = (153 * (if 2 < m then m - 3 else m + 9) + 2) div 5 + d - 1;
          doe = yoe * 365 + yoe div 4 - yoe div 100 + doy
      in era * 146097 + doe - 719468)"

definition isoDateMs :: "jsstring \<Rightarrow> real option" where
  "isoDateMs s =
     (if length s = 10 \<and> s ! 4 = 45 \<and> s ! 7 = 45 \<and>
         list_all isDigit (take 4 s @ take 2 (drop 5 s) @ drop 8 s)
      then
        (let y = decimal (take 4 s); m = decimal (take 2 (drop 5 s)); d = decimal (drop 8 s)
         in if 1 \<le> m \<and> m \<le> 12 \<and> 1 \<le> d \<and> d \<le> daysInMonth y m
            then Some (real_of_int (daysFromCivil y m d * 86400000))
            else None)
      else None)"

text \<open>
  The platform of the runs below: dates in the date-only form, and the operations of
  IEEE 754 on doubles, which round the exact result to the nearest double, to the one
  with an even significand when two are equally near. \<open>roundDouble\<close> is that rounding
  for a result below the overflow threshold: the result is a multiple of the unit in the
  last of the 53 binary places, and of \<open>2\<close> to the power \<open>- 1074\<close> for a subnormal.
\<close>

definition tiesToEven :: "real \<Rightarrow> int" where
  "tiesToEven q =
     (if q - of_int \<lfloor>q\<rfloor> < 1 / 2 then \<lfloor>q\<rfloor>
      else if 1 / 2 < q - of_int \<lfloor>q\<rfloor> then \<lfloor>q\<rfloor> + 1
      else if even \<lfloor>q\<rfloor> then \<lfloor>q\<rfloor> else \<lfloor>q\<rfloor> + 1)"

definition roundDouble :: "real \<Rightarrow> real" where
  "roundDouble x =
     (if x = 0 then 0
      else of_int (tiesToEven (x / 2 powr of_int (max \<lfloor>log 2 \<bar>x\<bar>\<rfloor> (- 1022) - 52)))
             * 2 powr of_int (max \<lfloor>log 2 \<bar>x\<bar>\<rfloor> (- 1022) - 52))"

definition doubles :: platform where
  "doubles = \<lparr>getTime = isoDateMs,
              quot = (\<lambda>a b. roundDouble (a / b)),
              plus = (\<lambda>a b. roundDouble (a + b))\<rparr>"

text \<open>The filter and the two reviews of the scenario: 5 hours and 15 hours of playtime,
  both created on 2025-06-01 at noon UTC.\<close>

definition year2025 :: FilterCriteria where
  "year2025 = \<lparr>minPlaytimeHours = 0, maxPlaytimeHours = 10,
               startDate = js ''2025-01-01'', endDate = js ''2025-12-31''\<rparr>"

definition played5h :: SteamReview where
  "played5h = \<lparr>recommendationid = js ''1'',
               author = \<lparr>steamid = js ''7'', playtime_forever = 300\<rparr>,
               review = js ''good'', timestamp_created = 1748779200, voted_up = True\<rparr>"

definition played15h :: SteamReview where
  "played15h = \<lparr>recommendationid = js ''2'',
               author = \<lparr>steamid = js ''8'', playtime_forever = 900\<rparr>,
               review = js ''long'', timestamp_created = 1748779200, voted_up = True\<rparr>"

text \<open>A review with 6 minutes of playtime, and the criteria of the scenario with the
  double nearest to 0.1 as the lower bound of the hours.\<close>

definition played6min :: SteamReview where
  "played6min = \<lparr>recommendationid = js ''3'',
               author = \<lparr>steamid = js ''9'', playtime_forever = 6\<rparr>,
               review = js ''short'', timestamp_created = 1748779200, voted_up = False\<rparr>"

definition fromTenth :: FilterCriteria where
  "fromTenth = year2025\<lparr>minPlaytimeHours := 3602879701896397 / 36028797018963968\<rparr>"

section \<open>Origin Classifier: \<^verbatim>\<open>verifyDomesticGame\<close>\<close>

text \<open>\<^verbatim>\<open>SteamGame\<close> of \<^verbatim>\<open>types.ts\<close>. An optional field is an \<open>option\<close>;
  \<^verbatim>\<open>total_reviews\<close> may moreover hold \<^verbatim>\<open>NaN\<close>.\<close>

record SteamGame =
  appid :: jsnum
  name :: "jsstring option"
  logo :: jsstring
  release_date :: "jsstring option"
  developer :: "jsstring option"
  publishers :: "jsstring list option"
  total_reviews :: "jsnum option"
  review_summary :: "jsstring option"
  score :: "int option"

text \<open>The detail payload \<^verbatim>\<open>response[appid].data\<close> of the \<^verbatim>\<open>appdetails\<close> endpoint; a field
  that is missing is \<open>None\<close>.\<close>

record SupportInfo =
  email :: "jsstring option"
  url :: "jsstring option"

record AppData =
  data_name :: "jsstring option"
  data_developers :: "jsstring list option"
  data_publishers :: "jsstring list option"
  data_support_info :: "SupportInfo option"
  data_supported_languages :: "jsstring option"

record AppEntry =
  entry_success :: bool
  entry_data :: "AppData option"

text \<open>The response of the relay for an \<^verbatim>\<open>appdetails\<close> request: falsy (\<open>None\<close>) or an
  object that maps an id to its entry.\<close>

type_synonym AppDetails = "(jsnum \<rightharpoonup> AppEntry) option"

definition KNOWN_CN_ENTITIES :: "jsstring list" where
  "KNOWN_CN_ENTITIES = map js
     [''bilibili'', ''gamera'', ''lightning games'', ''yooreka'', ''thermite'', ''raytheon'',
      ''chillyroom'', ''coconut island'', ''martian'', ''giant'', ''mihoyo'', ''netease'',
      ''tencent'', ''game science'', ''playism'', ''indieark'', ''sapling'', ''east2west'',
      ''leiting'', ''youth'', ''perfect world'', ''wanmei'', ''x.d. network'', ''xd'',
      ''hypergryph'', ''manjuu'', ''yongshi'', ''sunborn'', ''papergames'', ''kuro'',
      ''hero entertainment'', ''oasis'', ''pixmain'', ''24 entertainment'', ''pathea'',
      ''recreate'', ''pixpil'', ''leenzee'', ''everstone'', ''joyone'', ''yixian'',
      ''astrolabe'', ''2p games'', ''island'', ''duoyi'', ''seasun'', ''kingsoft'',
      ''century'', ''snail'', ''loong'', ''zlong'', ''505 games'', ''microids'', ''ce-asia'',
      ''hk'', ''taiwan'', ''beijing'', ''shanghai'', ''shenzhen'', ''tanxun'', ''2P'', ''zk'',
      ''zh'', ''cn'', ''china'', ''beijing'', ''chengdu'', ''hangzhou'', ''guangzhou'']"

definition CULTURAL_KEYWORDS :: "jsstring list" where
  "CULTURAL_KEYWORDS = map js
     [''wuxia'', ''xianxia'', ''jianghu'', ''three kingdoms'', ''dynasty'', ''cultivation'',
      ''myth'', ''wukong'', ''wuchang'', ''guzheng'', ''taoist'', ''immortal'', ''jade'',
      ''shanhai'', ''yanyun'', ''sixteen tones'', ''swordsman'', ''emperor'', ''shaolin'',
      ''records of'', ''legend of'', ''sword and fairy'', ''gujian'', ''shengshi'',
      ''tianxia'', ''matchless'', ''kung fu'', ''eastern'', ''oriental'', ''loong'',
      ''dragon'', ''ming'', ''song'', ''tang'', ''han'']"

definition VIP_WHITELIST :: "jsstring list" where
  "VIP_WHITELIST = map js
     [''wuchang'', ''fallen feathers'', ''where winds meet'', ''sixteen tones'', ''yanyun'',
      ''shengshi'', ''prosperity'', ''tianxia'', ''marvels'']"

definition knownForeignGiants :: "jsstring list" where
  "knownForeignGiants = map js
     [''capcom'', ''ubisoft'', ''electronic arts'', ''sega'', ''bandai namco'',
      ''square enix'', ''microsoft'', ''sony'', ''bethesda'', ''firaxis'', ''cd projekt'',
      ''rockstar'', ''valve'', ''paradox'', ''fromsoftware'', ''larian'', ''activision'',
      ''blizzard'', ''2k'', ''thq nordic'', ''focus entertainment'', ''nintendo'', ''konami'',
      ''take-two'', ''warner bros'']"

text \<open>The fields of the payload as the source reads them: \<^verbatim>\<open>data.developers || []\<close>,
  \<^verbatim>\<open>data.name || ""\<close> and so on.\<close>

definition developers :: "AppData \<Rightarrow> jsstring list" where
  "developers d = (case data_developers d of None \<Rightarrow> [] | Some ds \<Rightarrow> ds)"

definition publishersOf :: "AppData \<Rightarrow> jsstring list" where
  "publishersOf d = (case data_publishers d of None \<Rightarrow> [] | Some ps \<Rightarrow> ps)"

definition supportedLangs :: "AppData \<Rightarrow> jsstring" where
  "supportedLangs d = (case data_supported_languages d of None \<Rightarrow> [] | Some s \<Rightarrow> s)"

definition nameOf :: "AppData \<Rightarrow> jsstring" where
  "nameOf d = (case data_name d of None \<Rightarrow> [] | Some s \<Rightarrow> s)"

definition lowerName :: "(jsstring \<Rightarrow> jsstring) \<Rightarrow> AppData \<Rightarrow> jsstring" where
  "lowerName lower d = lower (nameOf d)"

definition lowerDevs :: "(jsstring \<Rightarrow> jsstring) \<Rightarrow> AppData \<Rightarrow> jsstring list" where
  "lowerDevs lower d = map lower (developers d)"

definition lowerPubs :: "(jsstring \<Rightarrow> jsstring) \<Rightarrow> AppData \<Rightarrow> jsstring list" where
  "lowerPubs lower d = map lower (publishersOf d)"

text \<open>\<^verbatim>\<open>(supportInfo.email || "").toLowerCase()\<close> and the same for the URL, with
  \<^verbatim>\<open>supportInfo = data.support_info || {}\<close>.\<close>

definition emailOf :: "(jsstring \<Rightarrow> jsstring) \<Rightarrow> AppData \<Rightarrow> jsstring" where
  "emailOf lower d =
     lower (case data_support_info d of
              None \<Rightarrow> []
            | Some si \<Rightarrow> (case email si of None \<Rightarrow> [] | Some s \<Rightarrow> s))"

definition supportUrl :: "(jsstring \<Rightarrow> jsstring) \<Rightarrow> AppData \<Rightarrow> jsstring" where
  "supportUrl lower d =
     lower (case data_support_info d of
              None \<Rightarrow> []
            | Some si \<Rightarrow> (case url si of None \<Rightarrow> [] | Some s \<Rightarrow> s))"

text \<open>The predicates of the source. \<open>hasChineseChars\<close> is the test for a code unit from
  U+4E00 to U+9FA5.\<close>

definition hasChineseChars :: "jsstring \<Rightarrow> bool" where
  "hasChineseChars str = list_ex (\<lambda>c. 19968 \<le> c \<and> c \<le> 40869) str"

definition isKnownEntity :: "jsstring \<Rightarrow> bool" where
  "isKnownEntity str = list_ex (\<lambda>k. includesStr str k) KNOWN_CN_ENTITIES"

definition hasCulturalKeyword :: "jsstring \<Rightarrow> bool" where
  "hasCulturalKeyword str = list_ex (\<lambda>k. includesStr str k) CULTURAL_KEYWORDS"

definition isVip :: "(jsstring \<Rightarrow> jsstring) \<Rightarrow> AppData \<Rightarrow> bool" where
  "isVip lower d = list_ex (\<lambda>k. includesStr (lowerName lower d) k) VIP_WHITELIST"

definition devHasChinese :: "AppData \<Rightarrow> bool" where
  "devHasChinese d = list_ex hasChineseChars (developers d)"

definition pubHasChinese :: "AppData \<Rightarrow> bool" where
  "pubHasChinese d = list_ex hasChineseChars (publishersOf d)"

definition devIsKnown :: "(jsstring \<Rightarrow> jsstring) \<Rightarrow> AppData \<Rightarrow> bool" where
  "devIsKnown lower d = list_ex isKnownEntity (lowerDevs lower d)"

definition pubIsKnown :: "(jsstring \<Rightarrow> jsstring) \<Rightarrow> AppData \<Rightarrow> bool" where
  "pubIsKnown lower d = list_ex isKnownEntity (lowerPubs lower d)"

definition emailIsRegional :: "(jsstring \<Rightarrow> jsstring) \<Rightarrow> AppData \<Rightarrow> bool" where
  "emailIsRegional lower d =
     (endsWith (emailOf lower d) (js ''.cn'') \<or> includesStr (emailOf lower d) (js ''qq.com'') \<or>
      includesStr (emailOf lower d) (js ''163.com'') \<or> includesStr (emailOf lower d) (js ''aliyun'') \<or>
      includesStr (emailOf lower d) (js ''netease''))"

definition urlIsRegional :: "(jsstring \<Rightarrow> jsstring) \<Rightarrow> AppData \<Rightarrow> bool" where
  "urlIsRegional lower d =
     (includesStr (supportUrl lower d) (js ''.cn'') \<or> includesStr (supportUrl lower d) (js ''weibo'') \<or>
      includesStr (supportUrl lower d) (js ''bilibili''))"

text \<open>The second pattern and the last literal are written in Chinese in the source:
  U+7B80 U+4F53 U+4E2D U+6587, then U+5B8C U+5168 U+97F3 U+9891 inside the
  \<^verbatim>\<open>strong\<close> element, and U+6C49 U+8BED.\<close>

definition hasChineseAudio :: "AppData \<Rightarrow> bool" where
  "hasChineseAudio d =
     (testSeq (js ''Simplified Chinese'') (js ''<strong>Full Audio</strong>'') (supportedLangs d) \<or>
      testSeq [31616, 20307, 20013, 25991]
              (js ''<strong>'' @ [23436, 20840, 38899, 39057] @ js ''</strong>'')
              (supportedLangs d) \<or>
      includesStr (supportedLangs d) [27721, 35821])"

definition hasEnglishAudio :: "AppData \<Rightarrow> bool" where
  "hasEnglishAudio d =
     testSeq (js ''English'') (js ''<strong>Full Audio</strong>'') (supportedLangs d)"

definition isForeignGiant :: "jsstring \<Rightarrow> bool" where
  "isForeignGiant str = list_ex (\<lambda>k. includesStr str k) knownForeignGiants"

definition isDevForeignGiant :: "(jsstring \<Rightarrow> jsstring) \<Rightarrow> AppData \<Rightarrow> bool" where
  "isDevForeignGiant lower d = list_ex isForeignGiant (lowerDevs lower d)"

definition isPubForeignGiant :: "(jsstring \<Rightarrow> jsstring) \<Rightarrow> AppData \<Rightarrow> bool" where
  "isPubForeignGiant lower d = list_ex isForeignGiant (lowerPubs lower d)"

text \<open>The penalty for a foreign publisher applies under the source's condition
  \<^verbatim>\<open>isPubForeignGiant && !devHasChinese && !devIsKnown && !email.includes('.cn')\<close>.\<close>

definition pubPenalty :: "(jsstring \<Rightarrow> jsstring) \<Rightarrow> AppData \<Rightarrow> bool" where
  "pubPenalty lower d =
     (isPubForeignGiant lower d \<and> \<not> devHasChinese d \<and> \<not> devIsKnown lower d \<and>
      \<not> includesStr (emailOf lower d) (js ''.cn''))"

text \<open>The value of \<^verbatim>\<open>score\<close> at the threshold decision: the statements
  \<^verbatim>\<open>score += w\<close> and \<^verbatim>\<open>score -= w\<close> of the source, in their order.\<close>

definition domesticScore :: "(jsstring \<Rightarrow> jsstring) \<Rightarrow> AppData \<Rightarrow> int" where
  "domesticScore lower d =
     (if hasChineseChars (nameOf d) then 15 else 0) +
     (if hasCulturalKeyword (lowerName lower d) then 25 else 0) +
     (if devHasChinese d then 60 else 0) +
     (if pubHasChinese d then 40 else 0) +
     (if devIsKnown lower d then 50 else 0) +
     (if pubIsKnown lower d then 35 else 0) +
     (if emailIsRegional lower d then 50 else 0) +
     (if urlIsRegional lower d then 40 else 0) +
     (if hasChineseAudio d then 25 + (if \<not> hasEnglishAudio d then 25 else 0) else 0) -
     (if isDevForeignGiant lower d then 200 else 0) -
     (if pubPenalty lower d then 100 else 0)"

text \<open>The object \<^verbatim>\<open>{ ...game, name: data.name, developer: developers.join(', '),
  publishers: publishers, score }\<close>.\<close>

definition annotate :: "SteamGame \<Rightarrow> AppData \<Rightarrow> int \<Rightarrow> SteamGame" where
  "annotate game d s =
     game\<lparr>name := data_name d,
          developer := Some (join (developers d) (js '', '')),
          publishers := Some (publishersOf d),
          score := Some s\<rparr>"

text \<open>The part of \<^verbatim>\<open>verifyDomesticGame\<close> after the payload \<^verbatim>\<open>data\<close> is read: the VIP
  pass, then the threshold decision.\<close>

definition classify :: "(jsstring \<Rightarrow> jsstring) \<Rightarrow> SteamGame \<Rightarrow> AppData \<Rightarrow> SteamGame option" where
  "classify lower game d =
     (if isVip lower d then Some (annotate game d 999)
      else if 25 \<le> domesticScore lower d then Some (annotate game d (domesticScore lower d))
      else None)"

text \<open>
  \<^verbatim>\<open>verifyDomesticGame(game)\<close>, given the outcome of its call of \<^verbatim>\<open>fetchWithProxy\<close>.
  An error thrown by the call is caught and gives \<^verbatim>\<open>null\<close>; so does the TypeError of
  reading a field of a missing \<^verbatim>\<open>data\<close>.
\<close>

definition verifyDomesticGame ::
  "(jsstring \<Rightarrow> jsstring) \<Rightarrow> SteamGame \<Rightarrow> AppDetails fetched \<Rightarrow> SteamGame option" where
  "verifyDomesticGame lower game out =
     (case out of
        Threw e \<Rightarrow> None
      | Returned response \<Rightarrow>
          (case response of
             None \<Rightarrow> None
           | Some entries \<Rightarrow>
               (case entries (appid game) of
                  None \<Rightarrow> None
                | Some entry \<Rightarrow>
                    (if \<not> entry_success entry then None
                     else (case entry_data entry of
                             None \<Rightarrow> None
                           | Some d \<Rightarrow> classify lower game d)))))"

subsection \<open>Payloads and candidates for concrete runs\<close>

definition candidate :: SteamGame where
  "candidate = \<lparr>appid = Some 2054970, name = Some (js ''Listed''), logo = js ''capsule.jpg'',
                 release_date = Some (js ''2025''), developer = None, publishers = None,
                 total_reviews = Some (Some 5000), review_summary = Some (js ''Very Positive''),
                 score = None\<rparr>"

text \<open>A title with a cultural keyword (\<^verbatim>\<open>dragon\<close>) whose developer and publisher are
  the same foreign studio.\<close>

definition capcomDragon :: AppData where
  "capcomDragon = \<lparr>data_name = Some (js ''Dragons Dogma 2''),
                    data_developers = Some [js ''CAPCOM Co., Ltd.''],
                    data_publishers = Some [js ''CAPCOM Co., Ltd.''],
                    data_support_info = None, data_supported_languages = None\<rparr>"

text \<open>The same title and developer under a publisher that matches no list.\<close>

definition capcomIndie :: AppData where
  "capcomIndie = \<lparr>data_name = Some (js ''Dragons Dogma 2''),
                   data_developers = Some [js ''CAPCOM Co., Ltd.''],
                   data_publishers = Some [js ''Indie Pub''],
                   data_support_info = None, data_supported_languages = None\<rparr>"

text \<open>A title with cultural keywords from a known studio, and a title of the VIP list.\<close>

definition wukong :: AppData where
  "wukong = \<lparr>data_name = Some (js ''Black Myth: Wukong''),
              data_developers = Some [js ''Game Science''],
              data_publishers = Some [js ''Game Science''],
              data_support_info = None, data_supported_languages = None\<rparr>"

definition windsMeet :: AppData where
  "windsMeet = \<lparr>data_name = Some (js ''Where Winds Meet''),
                 data_developers = Some [js ''Everstone Studio''],
                 data_publishers = Some [js ''NetEase Games''],
                 data_support_info = None, data_supported_languages = None\<rparr>"

text \<open>The response that delivers the payload \<open>d\<close> for the candidate \<open>game\<close>.\<close>

definition delivered :: "SteamGame \<Rightarrow> AppData \<Rightarrow> AppDetails fetched" where
  "delivered game d =
     Returned (Some [appid game \<mapsto> \<lparr>entry_success = True, entry_data = Some d\<rparr>])"

section \<open>Search Page Scanner: \<^verbatim>\<open>fetchSearchPage\<close>\<close>

text \<open>White space of ECMAScript: the set that \<^verbatim>\<open>trim\<close>, \<^verbatim>\<open>\s\<close> and \<^verbatim>\<open>parseInt\<close>
  skip.\<close>

definition isSpace :: "nat \<Rightarrow> bool" where
  "isSpace c =
     (c = 9 \<or> c = 10 \<or> c = 11 \<or> c = 12 \<or> c = 13 \<or> c = 32 \<or> c = 160 \<or> c = 5760 \<or>
      (8192 \<le> c \<and> c \<le> 8202) \<or> c = 8232 \<or> c = 8233 \<or> c = 8239 \<or> c = 8287 \<or>
      c = 12288 \<or> c = 65279)"

definition trim :: "jsstring \<Rightarrow> jsstring" where
  "trim s = rev (dropWhile isSpace (rev (dropWhile isSpace s)))"

text \<open>
  \<^verbatim>\<open>parseInt(s)\<close> without radix: white space is skipped, then a sign, then the prefix
  \<^verbatim>\<open>0x\<close> selects radix 16; the digits that follow are read as far as they go, and
  \<^verbatim>\<open>NaN\<close> is the result when there is none.
\<close>

definition isHexDigit :: "nat \<Rightarrow> bool" where
  "isHexDigit c = (isDigit c \<or> (97 \<le> c \<and> c \<le> 102) \<or> (65 \<le> c \<and> c \<le> 70))"

definition hexadecimal :: "jsstring \<Rightarrow> int" where
  "hexadecimal s =
     foldl (\<lambda>a c. 16 * a + (if isDigit c then int c - 48
                              else if 97 \<le> c then int c - 87 else int c - 55)) 0 s"

definition parseMagnitude :: "jsstring \<Rightarrow> jsnum" where
  "parseMagnitude s =
     (if startsWith s (js ''0x'') \<or> startsWith s (js ''0X'')
      then (if takeWhile isHexDigit (drop 2 s) = [] then None
            else Some (hexadecimal (takeWhile isHexDigit (drop 2 s))))
      else (if takeWhile isDigit s = [] then None
            else Some (decimal (takeWhile isDigit s))))"

definition parseInt :: "jsstring \<Rightarrow> jsnum" where
  "parseInt s =
     (case dropWhile isSpace s of
        [] \<Rightarrow> None
      | c # cs \<Rightarrow>
          (if c = 45 then map_option uminus (parseMagnitude cs)
           else if c = 43 then parseMagnitude cs
           else parseMagnitude (c # cs)))"

text \<open>\<^verbatim>\<open>s.split(sep)[0]\<close> for a separator that is not empty: the text before the first
  occurrence of the separator.\<close>

fun firstSegment :: "jsstring \<Rightarrow> jsstring \<Rightarrow> jsstring" where
  "firstSegment [] sep = []"
| "firstSegment (c # cs) sep = (if startsWith (c # cs) sep then [] else c # firstSegment cs sep)"

text \<open>\<^verbatim>\<open>a || ""\<close> for an attribute or text that may be \<^verbatim>\<open>null\<close>.\<close>

definition orEmpty :: "jsstring option \<Rightarrow> jsstring" where
  "orEmpty a = (case a of None \<Rightarrow> [] | Some s \<Rightarrow> s)"

text \<open>\<^verbatim>\<open>releaseDate.match(/20(2[5-9]|[3-9][0-9])/)\<close> finds a match: at the start of the
  string, or further on.\<close>

fun yearAt :: "jsstring \<Rightarrow> bool" where
  "yearAt (a # b # c # d # rest) =
     (a = 50 \<and> b = 48 \<and>
      ((c = 50 \<and> 53 \<le> d \<and> d \<le> 57) \<or> (51 \<le> c \<and> c \<le> 57 \<and> 48 \<le> d \<and> d \<le> 57)))"
| "yearAt s = False"

fun yearMatch :: "jsstring \<Rightarrow> bool" where
  "yearMatch [] = False"
| "yearMatch (c # cs) = (yearAt (c # cs) \<or> yearMatch cs)"

text \<open>
  \<^verbatim>\<open>tooltip.match(/([0-9,]+)\s*(?:user reviews|...)/)\<close>, where the second label is
  U+7BC7 U+7528 U+6237 U+8BC4 U+6D4B: the first group of the leftmost match. A match
  starts at a digit or comma; its group is the whole run of digits and commas from
  there, since a shorter group would be followed by a digit or comma, which is neither
  white space nor the start of a label.
\<close>

definition isCountChar :: "nat \<Rightarrow> bool" where
  "isCountChar c = (isDigit c \<or> c = 44)"

definition labelFollows :: "jsstring \<Rightarrow> bool" where
  "labelFollows s =
     (startsWith (dropWhile isSpace s) (js ''user reviews'') \<or>
      startsWith (dropWhile isSpace s) [31687, 29992, 25143, 35780, 27979])"

fun reviewCountMatch :: "jsstring \<Rightarrow> jsstring option" where
  "reviewCountMatch [] = None"
| "reviewCountMatch (c # cs) =
     (if isCountChar c \<and> labelFollows (dropWhile isCountChar (c # cs))
      then Some (takeWhile isCountChar (c # cs))
      else reviewCountMatch cs)"

text \<open>
  One row \<^verbatim>\<open>a.search_result_row\<close> of the parsed fragment, as the source reads it:
  the attribute \<^verbatim>\<open>data-ds-appid\<close>, the text of \<^verbatim>\<open>.search_released\<close>, the two tooltip
  attributes of \<^verbatim>\<open>.search_review_summary\<close> when that element exists, the attribute
  \<^verbatim>\<open>data-store-tooltip\<close> of \<^verbatim>\<open>.search_reviewscore\<close>, the text of \<^verbatim>\<open>.title\<close> and the
  \<^verbatim>\<open>src\<close> of the image. \<open>None\<close> stands for a missing element or attribute.
\<close>

record summary_span =
  tooltip_html :: "jsstring option"
  store_tooltip :: "jsstring option"

record search_row =
  ds_appid :: "jsstring option"
  search_released :: "jsstring option"
  search_review_summary :: "summary_span option"
  search_reviewscore :: "jsstring option"
  title :: "jsstring option"
  img_src :: "jsstring option"

definition releaseDate :: "search_row \<Rightarrow> jsstring" where
  "releaseDate row = (case search_released row of None \<Rightarrow> [] | Some t \<Rightarrow> trim t)"

definition tooltip :: "search_row \<Rightarrow> jsstring" where
  "tooltip row =
     (case search_review_summary row of
        Some el \<Rightarrow>
          (if orEmpty (tooltip_html el) \<noteq> [] then orEmpty (tooltip_html el)
           else orEmpty (store_tooltip el))
      | None \<Rightarrow> orEmpty (search_reviewscore row))"

text \<open>\<^verbatim>\<open>reviewCount\<close>: 0 unless the tooltip has a match, then the count parsed from the
  group without its commas.\<close>

definition reviewCount :: "search_row \<Rightarrow> jsnum" where
  "reviewCount row =
     (case reviewCountMatch (tooltip row) of
        None \<Rightarrow> Some 0
      | Some grp \<Rightarrow> parseInt (filter (\<lambda>c. c \<noteq> 44) grp))"

text \<open>\<^verbatim>\<open>reviewCount <= 1000\<close>, which is false for \<^verbatim>\<open>NaN\<close>.\<close>

definition atMost1000 :: "jsnum \<Rightarrow> bool" where
  "atMost1000 n = (case n of None \<Rightarrow> False | Some k \<Rightarrow> k \<le> 1000)"

text \<open>The callback of \<^verbatim>\<open>rows.forEach\<close>: the candidate pushed for the row, or \<open>None\<close>
  when the callback returns before the push.\<close>

definition parseRow :: "search_row \<Rightarrow> SteamGame option" where
  "parseRow row =
     (if orEmpty (ds_appid row) = [] then None
      else if \<not> yearMatch (releaseDate row) then None
      else if atMost1000 (reviewCount row) then None
      else Some \<lparr>appid = parseInt (firstSegment (orEmpty (ds_appid row)) (js '','')),
                 name = Some (if trim (orEmpty (title row)) = [] then js ''Unknown''
                              else trim (orEmpty (title row))),
                 logo = orEmpty (img_src row),
                 release_date = Some (releaseDate row),
                 developer = None,
                 publishers = None,
                 total_reviews = Some (reviewCount row),
                 review_summary = Some (if firstSegment (tooltip row) (js ''<br>'') = []
                                        then js ''Unknown''
                                        else firstSegment (tooltip row) (js ''<br>'')),
                 score = None\<rparr>)"

text \<open>
  \<^verbatim>\<open>fetchSearchPage(pageIndex, batchSize)\<close>, given the outcome of its call of
  \<^verbatim>\<open>fetchWithProxy\<close>: the payload may be falsy, and its field \<^verbatim>\<open>results_html\<close> may be
  missing or empty; otherwise the fragment is parsed into its rows. An error is caught
  and gives the empty list.
\<close>

record search_response =
  results_html :: "search_row list option"

definition fetchSearchPage :: "search_response option fetched \<Rightarrow> SteamGame list" where
  "fetchSearchPage out =
     (case out of
        Threw e \<Rightarrow> []
      | Returned data \<Rightarrow>
          (case data of
             None \<Rightarrow> []
           | Some resp \<Rightarrow>
               (case results_html resp of
                  None \<Rightarrow> []
                | Some rows \<Rightarrow> List.map_filter parseRow rows)))"

text \<open>Rows for concrete runs: an id, a release label and the tooltip of the summary
  element.\<close>

definition rowOf :: "string \<Rightarrow> string \<Rightarrow> string \<Rightarrow> search_row" where
  "rowOf ident label tip =
     \<lparr>ds_appid = Some (js ident), search_released = Some (js label),
      search_review_summary = Some \<lparr>tooltip_html = Some (js tip), store_tooltip = None\<rparr>,
      search_reviewscore = None, title = Some (js ''Title''), img_src = Some (js ''a.jpg'')\<rparr>"

section \<open>Scan Orchestrator: \<^verbatim>\<open>scanForHighTrafficGames\<close>\<close>

text \<open>The constants of the source. \<^verbatim>\<open>BATCH_SIZE\<close> is the number of results asked for
  per search page; it is part of the request only.\<close>

definition BATCH_SIZE :: nat where
  "BATCH_SIZE = 50"

definition MAX_PAGES :: nat where
  "MAX_PAGES = 40"

definition PAGE_CONCURRENCY :: nat where
  "PAGE_CONCURRENCY = 3"

definition CHUNK_SIZE :: nat where
  "CHUNK_SIZE = 8"

text \<open>
  The messages passed to \<^verbatim>\<open>onProgress\<close> are three templates of Chinese text; a
  message is modelled by its template and the numbers printed into it: the pages
  \<^verbatim>\<open>page + 1\<close> to \<^verbatim>\<open>endPage\<close> of \<^verbatim>\<open>MAX_PAGES\<close> being scanned, the number of
  candidates about to be verified, and the count \<^verbatim>\<open>currentCount\<close> of
  \<^verbatim>\<open>candidates.length\<close> in verification. The messages of one scan differ from each other.

  The callback is optional. A call of it returns (\<open>None\<close>) or throws an error (\<open>Some\<close>
  its message).
\<close>

datatype progress = Scanning nat nat nat | Verifying nat | Deep nat nat

type_synonym callback = "(progress \<Rightarrow> jsstring option) option"

definition notify :: "callback \<Rightarrow> progress \<Rightarrow> jsstring option" where
  "notify onProgress msg = (case onProgress of None \<Rightarrow> None | Some f \<Rightarrow> f msg)"

text \<open>\<^verbatim>\<open>a === b\<close> on numbers: \<^verbatim>\<open>NaN\<close> is equal to nothing.\<close>

definition strictEq :: "jsnum \<Rightarrow> jsnum \<Rightarrow> bool" where
  "strictEq a b = (a \<noteq> None \<and> a = b)"

text \<open>The callback of \<^verbatim>\<open>results.flat().forEach\<close>:
  \<^verbatim>\<open>if (!candidates.some(c => c.appid === g.appid)) candidates.push(g)\<close>.\<close>

definition pushNew :: "SteamGame list \<Rightarrow> SteamGame \<Rightarrow> SteamGame list" where
  "pushNew candidates g =
     (if list_ex (\<lambda>c. strictEq (appid c) (appid g)) candidates then candidates
      else candidates @ [g])"

text \<open>
  Phase 1, the loop \<^verbatim>\<open>for (let page = 0; page < MAX_PAGES; page += PAGE_CONCURRENCY)\<close>,
  from the page \<open>page\<close> with the candidates found so far. \<open>pages p\<close> is the outcome of
  the call of \<^verbatim>\<open>fetchWithProxy\<close> for the page \<open>p\<close>. The result is \<open>Inl\<close> the error
  thrown by the callback, or \<open>Inr\<close> the candidates at the end of the loop.
\<close>

function scanPages ::
  "callback \<Rightarrow> (nat \<Rightarrow> search_response option fetched) \<Rightarrow> nat \<Rightarrow> SteamGame list
     \<Rightarrow> jsstring + SteamGame list" where
  "scanPages onProgress pages page candidates =
     (if page < MAX_PAGES then
        (case notify onProgress
                (Scanning (page + 1) (min (page + PAGE_CONCURRENCY) MAX_PAGES) MAX_PAGES) of
           Some e \<Rightarrow> Inl e
         | None \<Rightarrow>
             scanPages onProgress pages (page + PAGE_CONCURRENCY)
               (foldl pushNew candidates
                  (concat (map (\<lambda>p. fetchSearchPage (pages p))
                             [page ..< min (page + PAGE_CONCURRENCY) MAX_PAGES]))))
      else Inr candidates)"
  by pat_completeness auto
termination
  by (relation "measure (\<lambda>(onProgress, pages, page, candidates). MAX_PAGES - page)")
     (auto simp: PAGE_CONCURRENCY_def)

declare scanPages.simps [simp del]

text \<open>
  The results of one chunk that are not \<^verbatim>\<open>null\<close>, in the order of the chunk.
  \<open>details k\<close> is the outcome of the call of \<^verbatim>\<open>fetchWithProxy\<close> made for the
  candidate at the index \<open>k\<close> of \<^verbatim>\<open>candidates\<close>.
\<close>

fun verifyFrom ::
  "(jsstring \<Rightarrow> jsstring) \<Rightarrow> (nat \<Rightarrow> AppDetails fetched) \<Rightarrow> nat \<Rightarrow> SteamGame list
     \<Rightarrow> SteamGame list" where
  "verifyFrom lower details k [] = []"
| "verifyFrom lower details k (g # gs) =
     (case verifyDomesticGame lower g (details k) of
        None \<Rightarrow> verifyFrom lower details (Suc k) gs
      | Some res \<Rightarrow> res # verifyFrom lower details (Suc k) gs)"

text \<open>
  Phase 2, the loop \<^verbatim>\<open>for (let i = 0; i < candidates.length; i += CHUNK_SIZE)\<close>, from
  the index \<open>i\<close>. The state holds the candidates handed to \<^verbatim>\<open>verifyDomesticGame\<close> so
  far, the array \<^verbatim>\<open>validGames\<close>, and the error thrown by the callback, if any.
\<close>

record verification =
  classified :: "SteamGame list"
  validGames :: "SteamGame list"
  thrown :: "jsstring option"

function verifyChunks ::
  "(jsstring \<Rightarrow> jsstring) \<Rightarrow> callback \<Rightarrow> (nat \<Rightarrow> AppDetails fetched) \<Rightarrow> SteamGame list
     \<Rightarrow> nat \<Rightarrow> SteamGame list \<Rightarrow> SteamGame list \<Rightarrow> verification" where
  "verifyChunks lower onProgress details candidates i done valid =
     (if i < length candidates then
        (case notify onProgress
                (Deep (min (i + CHUNK_SIZE) (length candidates)) (length candidates)) of
           Some e \<Rightarrow> \<lparr>classified = done, validGames = valid, thrown = Some e\<rparr>
         | None \<Rightarrow>
             verifyChunks lower onProgress details candidates (i + CHUNK_SIZE)
               (done @ take CHUNK_SIZE (drop i candidates))
               (valid @ verifyFrom lower details i (take CHUNK_SIZE (drop i candidates))))
      else \<lparr>classified = done, validGames = valid, thrown = None\<rparr>)"
  by pat_completeness auto
termination
  by (relation "measure (\<lambda>(lower, onProgress, details, candidates, i, done, valid).
                           length candidates - i)")
     (auto simp: CHUNK_SIZE_def)

declare verifyChunks.simps [simp del]

text \<open>\<^verbatim>\<open>validGames.sort((a, b) => (b.total_reviews || 0) - (a.total_reviews || 0))\<close>:
  the key of a game is its review count, 0 when the count is missing or \<^verbatim>\<open>NaN\<close>, and
  the sort, which is stable, puts the keys in descending order.\<close>

definition reviewsOrZero :: "SteamGame \<Rightarrow> int" where
  "reviewsOrZero g = (case total_reviews g of Some (Some n) \<Rightarrow> n | _ \<Rightarrow> 0)"

definition sortByReviews :: "SteamGame list \<Rightarrow> SteamGame list" where
  "sortByReviews games = sort_key (\<lambda>g. - reviewsOrZero g) games"

text \<open>
  \<^verbatim>\<open>scanForHighTrafficGames(onProgress)\<close>. The result holds the candidates of phase 1,
  the candidates classified in phase 2, and what the function returns: \<open>Inl\<close> the error
  it throws, \<open>Inr\<close> the list it resolves with. An error is thrown again unless
  \<^verbatim>\<open>validGames\<close> has an element, in which case \<^verbatim>\<open>validGames\<close> is returned as it is.
\<close>

record scan =
  discovered :: "SteamGame list"
  verified :: "SteamGame list"
  returned :: "jsstring + SteamGame list"

definition scanForHighTrafficGames ::
  "(jsstring \<Rightarrow> jsstring) \<Rightarrow> callback \<Rightarrow> (nat \<Rightarrow> search_response option fetched)
     \<Rightarrow> (nat \<Rightarrow> AppDetails fetched) \<Rightarrow> scan" where
  "scanForHighTrafficGames lower onProgress pages details =
     (case scanPages onProgress pages 0 [] of
        Inl e \<Rightarrow> \<lparr>discovered = [], verified = [], returned = Inl e\<rparr>
      | Inr candidates \<Rightarrow>
          (case notify onProgress (Verifying (length candidates)) of
             Some e \<Rightarrow> \<lparr>discovered = candidates, verified = [], returned = Inl e\<rparr>
           | None \<Rightarrow>
               (let v = verifyChunks lower onProgress details candidates 0 [] []
                in \<lparr>discovered = candidates, verified = classified v,
                    returned =
                      (case thrown v of
                         Some e \<Rightarrow> if 0 < length (validGames v) then Inr (validGames v) else Inl e
                       | None \<Rightarrow> Inr (sortByReviews (validGames v)))\<rparr>)))"

text \<open>The ids that are numbers, and the statement that no two ids of a list are equal
  by \<^verbatim>\<open>===\<close>.\<close>

definition numericIds :: "SteamGame list \<Rightarrow> int list" where
  "numericIds games = List.map_filter appid games"

definition uniqueIds :: "SteamGame list \<Rightarrow> bool" where
  "uniqueIds games = sorted_wrt (\<lambda>a b. \<not> strictEq (appid a) (appid b)) games"

text \<open>The lists in descending order of the review count.\<close>

definition sortedByReviews :: "SteamGame list \<Rightarrow> bool" where
  "sortedByReviews games = sorted_wrt (\<lambda>a b. reviewsOrZero b \<le> reviewsOrZero a) games"

subsection \<open>A scan for concrete runs\<close>

text \<open>
  The first search page lists nine games with the ids 1 to 9, released in 2025; the
  second game has 3,000 reviews and the others 2,000. The second page lists the game 1
  again, and the relay fails for every other page. The detail payload of every candidate
  is the title of the VIP list above. The callback throws when it is told that the
  second chunk, the ninth candidate of nine, is being verified.
\<close>

definition exampleRows :: "search_row list" where
  "exampleRows =
     [rowOf ''1'' ''2025'' ''2,000 user reviews'', rowOf ''2'' ''2025'' ''3,000 user reviews'',
      rowOf ''3'' ''2025'' ''2,000 user reviews'', rowOf ''4'' ''2025'' ''2,000 user reviews'',
      rowOf ''5'' ''2025'' ''2,000 user reviews'', rowOf ''6'' ''2025'' ''2,000 user reviews'',
      rowOf ''7'' ''2025'' ''2,000 user reviews'', rowOf ''8'' ''2025'' ''2,000 user reviews'',
      rowOf ''9'' ''2025'' ''2,000 user reviews'']"

definition examplePages :: "nat \<Rightarrow> search_response option fetched" where
  "examplePages p =
     (if p = 0 then Returned (Some \<lparr>results_html = Some exampleRows\<rparr>)
      else if p = 1
      then Returned (Some \<lparr>results_html = Some [rowOf ''1'' ''2025'' ''2,000 user reviews'']\<rparr>)
      else Threw proxyError)"

definition exampleDetails :: "nat \<Rightarrow> AppDetails fetched" where
  "exampleDetails k =
     Returned (Some (\<lambda>a. Some \<lparr>entry_success = True, entry_data = Some windsMeet\<rparr>))"

definition throwsAtSecondChunk :: callback where
  "throwsAtSecondChunk =
     Some (\<lambda>msg. if msg = Deep 9 9 then Some (js ''progress view is gone'') else None)"

text \<open>The candidate that a row of the example yields, and the same candidate after the
  VIP pass.\<close>

definition listed :: "int \<Rightarrow> int \<Rightarrow> string \<Rightarrow> SteamGame" where
  "listed ident n tip =
     \<lparr>appid = Some ident, name = Some (js ''Title''), logo = js ''a.jpg'',
      release_date = Some (js ''2025''), developer = None, publishers = None,
      total_reviews = Some (Some n), review_summary = Some (js tip), score = None\<rparr>"

definition accepted :: "int \<Rightarrow> int \<Rightarrow> string \<Rightarrow> SteamGame" where
  "accepted ident n tip = annotate (listed ident n tip) windsMeet 999"

definition nineListed :: "SteamGame list" where
  "nineListed =
     [listed 1 2000 ''2,000 user reviews'', listed 2 3000 ''3,000 user reviews'',
      listed 3 2000 ''2,000 user reviews'', listed 4 2000 ''2,000 user reviews'',
      listed 5 2000 ''2,000 user reviews'', listed 6 2000 ''2,000 user reviews'',
      listed 7 2000 ''2,000 user reviews'', listed 8 2000 ''2,000 user reviews'',
      listed 9 2000 ''2,000 user reviews'']"

definition firstChunk :: "SteamGame list" where
  "firstChunk =
     [accepted 1 2000 ''2,000 user reviews'', accepted 2 3000 ''3,000 user reviews'',
      accepted 3 2000 ''2,000 user reviews'', accepted 4 2000 ''2,000 user reviews'',
      accepted 5 2000 ''2,000 user reviews'', accepted 6 2000 ''2,000 user reviews'',
      accepted 7 2000 ''2,000 user reviews'', accepted 8 2000 ''2,000 user reviews'']"

text \<open>
  A second scan: the first search page lists two games whose attribute
  \<^verbatim>\<open>data-ds-appid\<close> is \<^verbatim>\<open>abc\<close>, with 2,000 and 3,000 reviews, the relay fails for every
  other page, every detail payload is the title of the VIP list, and there is no
  callback. \<open>unnumbered\<close> is the candidate such a row yields, with the id \<^verbatim>\<open>NaN\<close>.
\<close>

definition nanRows :: "search_row list" where
  "nanRows =
     [rowOf ''abc'' ''2025'' ''2,000 user reviews'', rowOf ''abc'' ''2025'' ''3,000 user reviews'']"

definition nanPages :: "nat \<Rightarrow> search_response option fetched" where
  "nanPages p =
     (if p = 0 then Returned (Some \<lparr>results_html = Some nanRows\<rparr>) else Threw proxyError)"

definition unnumbered :: "int \<Rightarrow> string \<Rightarrow> SteamGame" where
  "unnumbered n tip =
     \<lparr>appid = None, name = Some (js ''Title''), logo = js ''a.jpg'',
      release_date = Some (js ''2025''), developer = None, publishers = None,
      total_reviews = Some (Some n), review_summary = Some (js tip), score = None\<rparr>"

definition nanDiscovered :: "SteamGame list" where
  "nanDiscovered =
     [unnumbered 2000 ''2,000 user reviews'', unnumbered 3000 ''3,000 user reviews'']"

definition nanReturned :: "SteamGame list" where
  "nanReturned =
     [annotate (unnumbered 3000 ''3,000 user reviews'') windsMeet 999,
      annotate (unnumbered 2000 ''2,000 user reviews'') windsMeet 999]"

section \<open>Properties of the Relay Client\<close>

lemma includesStr_head_absent: "c \<notin> set s \<Longrightarrow> \<not> includesStr s (c # k)"
  by (induction s) auto

lemma showNat_500: "showNat 500 = js ''500''"
  by (simp add: showNat.simps js_def)

lemma fetchWithProxy_exhausted:
  "outcome (fetchWithProxy parse r1 r2 r3) = Inl m \<longleftrightarrow>
     (\<exists>m1 m2 m3. allOrigins parse r1 = Failed m1 \<and> direct r2 = Failed m2 \<and>
        direct r3 = Failed m3) \<and> m = proxyError"
  by (auto simp: fetchWithProxy_def split: attempt.splits)

text \<open>
  Claim C6, as stated, puts every recorded failure reason into the message of the error
  that \<^verbatim>\<open>fetchWithProxy\<close> throws. When the three relays answer with the status 500, the
  reasons recorded are the three texts below and the thrown message is the fixed text of
  the source, which contains none of them.
\<close>

theorem fetchWithProxy_message_counterexample:
  "errors (fetchWithProxy (\<lambda>s. None :: unit option) (status500 (Envelope None None))
             (status500 (Inl [])) (status500 (Inl [])))
     = [js ''AllOrigins: Status 500'', js ''CorsProxy: Status 500'', js ''CodeTabs: Status 500''] \<and>
   outcome (fetchWithProxy (\<lambda>s. None :: unit option) (status500 (Envelope None None))
             (status500 (Inl [])) (status500 (Inl []))) = Inl proxyError \<and>
   \<not> includesStr proxyError (js ''AllOrigins: Status 500'')"
  by (simp add: fetchWithProxy_def allOrigins_def direct_def status500_def showNat_500 js_def
        proxyError_def)

text \<open>
  Claim C6, amended. When all relay strategies fail, \<^verbatim>\<open>fetchWithProxy\<close> fails with the
  fixed message of the source. The failure reasons recorded for the three strategies, each
  behind the name of its strategy, are the argument of \<^verbatim>\<open>console.error\<close>; none of them
  occurs in the thrown message.
\<close>

theorem fetchWithProxy_all_fail:
  assumes "allOrigins parse r1 = Failed m1" and "direct r2 = Failed m2"
    and "direct r3 = Failed m3"
  shows "outcome (fetchWithProxy parse r1 r2 r3) = Inl proxyError \<and>
         errors (fetchWithProxy parse r1 r2 r3) =
           [js ''AllOrigins: '' @ m1, js ''CorsProxy: '' @ m2, js ''CodeTabs: '' @ m3] \<and>
         console (fetchWithProxy parse r1 r2 r3) = Some (errors (fetchWithProxy parse r1 r2 r3)) \<and>
         list_all (\<lambda>e. \<not> includesStr proxyError e) (errors (fetchWithProxy parse r1 r2 r3))"
proof -
  have "65 \<notin> set proxyError" and "67 \<notin> set proxyError"
    by (simp_all add: proxyError_def)
  then have "\<not> includesStr proxyError (js ''AllOrigins: '' @ m1)"
    and "\<not> includesStr proxyError (js ''CorsProxy: '' @ m2)"
    and "\<not> includesStr proxyError (js ''CodeTabs: '' @ m3)"
    by (simp_all add: js_def includesStr_head_absent)
  with assms show ?thesis
    by (simp add: fetchWithProxy_def)
qed

theorem fetchWithProxy_all_fail_witness:
  "outcome (fetchWithProxy (\<lambda>s. None :: unit option) (status500 (Envelope None None))
             (status500 (Inl [])) (status500 (Inl []))) = Inl proxyError \<and>
   console (fetchWithProxy (\<lambda>s. None :: unit option) (status500 (Envelope None None))
             (status500 (Inl [])) (status500 (Inl [])))
     = Some [js ''AllOrigins: Status 500'', js ''CorsProxy: Status 500'',
             js ''CodeTabs: Status 500'']"
  using fetchWithProxy_all_fail
      [of "\<lambda>s. None :: unit option" "status500 (Envelope None None)" "js ''Status 500''"
          "status500 (Inl [])" "js ''Status 500''" "status500 (Inl [])" "js ''Status 500''"]
  by (simp add: allOrigins_def direct_def status500_def showNat_500 js_def)

section \<open>Properties of the Review Fetcher\<close>

lemma maxBatches_div: "maxBatches limit = - ((- limit) div 100)"
proof -
  have "- (real_of_int limit / real_of_int 100) = real_of_int (- limit) / real_of_int 100"
    by simp
  then have "\<lceil>real_of_int limit / real_of_int 100\<rceil> = - ((- limit) div 100)"
    unfolding ceiling_def by (simp only: floor_divide_of_int_eq)
  then show ?thesis by (simp add: maxBatches_def batchSize_def)
qed

lemma reviewLoop_done:
  "\<not> int i < maxBatches limit \<Longrightarrow> reviewLoop net appId limit i acc cur = ([], Inr acc)"
  by (subst reviewLoop.simps) simp

lemma reviewLoop_uri:
  "int i < maxBatches limit \<Longrightarrow> \<not> encodable (cursorText cur) \<Longrightarrow>
   reviewLoop net appId limit i acc cur = ([], Inl fetchReviewsError)"
  by (subst reviewLoop.simps) simp

lemma reviewLoop_threw:
  "int i < maxBatches limit \<Longrightarrow> encodable (cursorText cur) \<Longrightarrow> net appId i cur = Threw e \<Longrightarrow>
   reviewLoop net appId limit i acc cur = ([Threw e], Inl fetchReviewsError)"
  by (subst reviewLoop.simps) simp

lemma reviewLoop_break:
  "int i < maxBatches limit \<Longrightarrow> encodable (cursorText cur) \<Longrightarrow>
   net appId i cur = Returned data \<Longrightarrow> pageReviews data = None \<Longrightarrow>
   reviewLoop net appId limit i acc cur = ([Returned data], Inr acc)"
  by (subst reviewLoop.simps) simp

lemma reviewLoop_full:
  "int i < maxBatches limit \<Longrightarrow> encodable (cursorText cur) \<Longrightarrow>
   net appId i cur = Returned data \<Longrightarrow> pageReviews data = Some rs \<Longrightarrow>
   limit \<le> int (length (acc @ rs)) \<Longrightarrow>
   reviewLoop net appId limit i acc cur = ([Returned data], Inr (acc @ rs))"
  by (subst reviewLoop.simps) simp

lemma reviewLoop_next:
  "int i < maxBatches limit \<Longrightarrow> encodable (cursorText cur) \<Longrightarrow>
   net appId i cur = Returned data \<Longrightarrow> pageReviews data = Some rs \<Longrightarrow>
   \<not> limit \<le> int (length (acc @ rs)) \<Longrightarrow>
   reviewLoop net appId limit i acc cur =
     (Returned data # fst (reviewLoop net appId limit (Suc i) (acc @ rs)
                            (case data of None \<Rightarrow> None | Some p \<Rightarrow> cursor p)),
      snd (reviewLoop net appId limit (Suc i) (acc @ rs)
                            (case data of None \<Rightarrow> None | Some p \<Rightarrow> cursor p)))"
  by (subst reviewLoop.simps) (simp add: case_prod_beta)


lemma reviewLoop_induct [consumes 1, case_names finished uri threw broke full more]:
  assumes run: "reviewLoop net appId limit i acc cur = (tr, res)"
    and finished: "\<And>i acc cur. \<not> int i < maxBatches limit \<Longrightarrow> P i acc cur [] (Inr acc)"
    and uri: "\<And>i acc cur. int i < maxBatches limit \<Longrightarrow> \<not> encodable (cursorText cur) \<Longrightarrow>
           P i acc cur [] (Inl fetchReviewsError)"
    and threw: "\<And>i acc cur e. int i < maxBatches limit \<Longrightarrow> encodable (cursorText cur) \<Longrightarrow>
           net appId i cur = Threw e \<Longrightarrow> P i acc cur [Threw e] (Inl fetchReviewsError)"
    and broke: "\<And>i acc cur data. int i < maxBatches limit \<Longrightarrow> encodable (cursorText cur) \<Longrightarrow>
           net appId i cur = Returned data \<Longrightarrow> pageReviews data = None \<Longrightarrow>
           P i acc cur [Returned data] (Inr acc)"
    and full: "\<And>i acc cur data rs. int i < maxBatches limit \<Longrightarrow> encodable (cursorText cur) \<Longrightarrow>
           net appId i cur = Returned data \<Longrightarrow> pageReviews data = Some rs \<Longrightarrow>
           limit \<le> int (length (acc @ rs)) \<Longrightarrow> P i acc cur [Returned data] (Inr (acc @ rs))"
    and more: "\<And>i acc cur data rs cur' tr res. int i < maxBatches limit \<Longrightarrow>
           encodable (cursorText cur) \<Longrightarrow>
           net appId i cur = Returned data \<Longrightarrow> pageReviews data = Some rs \<Longrightarrow>
           \<not> limit \<le> int (length (acc @ rs)) \<Longrightarrow>
           cur' = (case data of None \<Rightarrow> None | Some p \<Rightarrow> cursor p) \<Longrightarrow>
           reviewLoop net appId limit (Suc i) (acc @ rs) cur' = (tr, res) \<Longrightarrow>
           P (Suc i) (acc @ rs) cur' tr res \<Longrightarrow>
           P i acc cur (Returned data # tr) res"
  shows "P i acc cur tr res"
  using assms
proof (induction net appId limit i acc cur arbitrary: tr res rule: reviewLoop.induct)
  case (1 net appId limit i acc cur)
  note run = "1.prems"(1) and finished = "1.prems"(2) and uri = "1.prems"(3)
    and threw = "1.prems"(4) and broke = "1.prems"(5) and full = "1.prems"(6)
    and more = "1.prems"(7)
  show ?case
  proof (cases "int i < maxBatches limit")
    case False
    with run finished [OF False] show ?thesis by (auto simp: reviewLoop_done)
  next
    case g1: True
    show ?thesis
    proof (cases "encodable (cursorText cur)")
      case False
      with g1 run uri [OF g1 False] show ?thesis by (auto simp: reviewLoop_uri)
    next
      case g2: True
      show ?thesis
      proof (cases "net appId i cur")
        case (Threw e)
        with g1 g2 run threw [OF g1 g2 Threw] show ?thesis by (auto simp: reviewLoop_threw)
      next
        case ret: (Returned data)
        show ?thesis
        proof (cases "pageReviews data")
          case None
          with g1 g2 ret run broke [OF g1 g2 ret None] show ?thesis
            by (auto simp: reviewLoop_break)
        next
          case some: (Some rs)
          show ?thesis
          proof (cases "limit \<le> int (length (acc @ rs))")
            case True
            have "reviewLoop net appId limit i acc cur = ([Returned data], Inr (acc @ rs))"
              using g1 g2 ret some True by (rule reviewLoop_full)
            with run full [OF g1 g2 ret some True] show ?thesis by auto
          next
            case False
            define cur' where "cur' = (case data of None \<Rightarrow> None | Some p \<Rightarrow> cursor p)"
            define nxt where "nxt = reviewLoop net appId limit (Suc i) (acc @ rs) cur'"
            have unfold: "reviewLoop net appId limit i acc cur = (Returned data # fst nxt, snd nxt)"
              unfolding nxt_def cur'_def using g1 g2 ret some False by (rule reviewLoop_next)
            have rec: "reviewLoop net appId limit (Suc i) (acc @ rs) cur' = (fst nxt, snd nxt)"
              by (simp add: nxt_def)
            from g2 have g2': "\<not> \<not> encodable (cursorText cur)" by simp
            have "P (Suc i) (acc @ rs) cur' (fst nxt) (snd nxt)"
              using rec unfolding cur'_def
              by (rule "1.IH" [OF g1 g2' ret some False]) (fact finished uri threw broke full more)+
            from more [OF g1 g2 ret some False cur'_def rec this] unfold run
            show ?thesis by auto
          qed
        qed
      qed
    qed
  qed
qed

lemma pageReviews_None: "pageReviews data = None \<longleftrightarrow> stops (Returned data)"
  by (auto simp: pageReviews_def stops_def split: option.splits)

lemma pageReviews_Some:
  "pageReviews data = Some rs \<Longrightarrow>
     \<not> stops (Returned data) \<and> pageList (Returned data) = rs \<and> added (Returned data) = rs"
  by (auto simp: pageReviews_def stops_def pageList_def added_def split: option.splits if_splits)

lemma added_Threw: "added (Threw e) = []"
  by (simp add: added_def stops_def)

lemma added_stops: "stops out \<Longrightarrow> added out = []"
  by (simp add: added_def)

lemma reviewLoop_steps:
  "reviewLoop net appId limit i acc cur = (tr, res) \<Longrightarrow>
     \<forall>j. Suc j < length tr \<longrightarrow>
       \<not> stops (tr ! j) \<and>
       int (length acc + length (concat (map pageList (take (Suc j) tr)))) < limit"
proof (induction rule: reviewLoop_induct)
  case (more i acc cur data rs cur' tr res)
  note page = pageReviews_Some [OF more.hyps(4)]
  show ?case
  proof (intro allI impI)
    fix j assume j: "Suc j < length (Returned data # tr)"
    show "\<not> stops ((Returned data # tr) ! j) \<and>
         int (length acc + length (concat (map pageList (take (Suc j) (Returned data # tr))))) < limit"
    proof (cases j)
      case 0
      with more.hyps(5) page show ?thesis by simp
    next
      case (Suc k)
      with j have "Suc k < length tr" by simp
      with more.IH have "\<not> stops (tr ! k)"
        and "int (length (acc @ rs) + length (concat (map pageList (take (Suc k) tr)))) < limit"
        by simp_all
      with Suc page show ?thesis by simp
    qed
  qed
qed simp_all

lemma reviewLoop_count:
  "reviewLoop net appId limit i acc cur = (tr, res) \<Longrightarrow>
     int (length tr) \<le> max 0 (maxBatches limit - int i)"
  by (induction rule: reviewLoop_induct) simp_all

lemma reviewLoop_result:
  "reviewLoop net appId limit i acc cur = (tr, res) \<Longrightarrow>
     (case res of
        Inl e \<Rightarrow> e = fetchReviewsError
      | Inr rs \<Rightarrow> rs = acc @ concat (map added tr))"
  by (induction rule: reviewLoop_induct)
     (simp_all add: added_Threw added_stops pageReviews_None pageReviews_Some split: sum.splits)

lemma reviewLoop_thrown:
  "reviewLoop net appId limit i acc cur = (tr, res) \<Longrightarrow>
     (\<exists>e. Threw e \<in> set tr) \<Longrightarrow> res = Inl fetchReviewsError"
  by (induction rule: reviewLoop_induct) auto

lemma added_bound:
  "honoursPageSize net appId \<Longrightarrow> net appId i cur = Returned data \<Longrightarrow>
     int (length (added (Returned data))) \<le> batchSize"
  by (cases data)
     (auto simp: honoursPageSize_def added_def pageList_def stops_def batchSize_def
        split: option.splits)

lemma reviewLoop_pages:
  "reviewLoop net appId limit i acc cur = (tr, res) \<Longrightarrow> honoursPageSize net appId \<Longrightarrow>
     \<forall>out \<in> set tr. int (length (added out)) \<le> batchSize"
proof (induction rule: reviewLoop_induct)
  case (broke i acc cur data)
  then show ?case by (simp add: added_bound)
next
  case (full i acc cur data rs)
  then show ?case by (simp add: added_bound)
next
  case (more i acc cur data rs cur' tr res)
  then show ?case by (simp add: added_bound)
qed (simp_all add: added_Threw batchSize_def)

lemma length_concat_bound:
  "\<forall>x \<in> set xs. int (length (f x)) \<le> b \<Longrightarrow> int (length (concat (map f xs))) \<le> int (length xs) * b"
  by (induction xs) (auto simp: algebra_simps)


lemma fullPages_honours: "honoursPageSize fullPages appId"
  by (auto simp: honoursPageSize_def fullPages_def batchSize_def)

lemma fullPages_run:
  "fetchReviews fullPages (Some 570) 250 =
     ([fullPages (Some 570) 0 (Some (js ''*'')), fullPages (Some 570) 1 (Some (js ''AoJ4'')),
       fullPages (Some 570) 2 (Some (js ''AoJ4''))],
      Inr (replicate 100 0 @ replicate 100 1 @ replicate 100 2))"
  by (simp add: fetchReviews_def reviewLoop.simps maxBatches_div fullPages_def pageReviews_def
        js_def cursorText_def)

lemma reportsFailure_run:
  "fetchReviews reportsFailure (Some 570) 250 =
     ([reportsFailure (Some 570) 0 (Some (js ''*'')),
       reportsFailure (Some 570) 1 (Some (js ''AoJ4''))],
      Inr (replicate 100 0))"
  by (simp add: fetchReviews_def reviewLoop.simps maxBatches_div reportsFailure_def
        pageReviews_def js_def cursorText_def)

lemma runsDry_run:
  "fetchReviews runsDry (Some 570) 250 =
     ([runsDry (Some 570) 0 (Some (js ''*'')), runsDry (Some 570) 1 (Some (js ''AoJ4''))],
      Inr (replicate 100 0))"
  by (simp add: fetchReviews_def reviewLoop.simps maxBatches_div runsDry_def
        pageReviews_def js_def cursorText_def)

lemma negative_limit_run: "fetchReviews fullPages (Some 570) (- 250) = ([], Inr [])"
  by (simp add: fetchReviews_def reviewLoop.simps maxBatches_div)

lemma failsSecond_run:
  "fetchReviews failsSecond (Some 570) 250 =
     ([failsSecond (Some 570) 0 (Some (js ''*'')), Threw (js ''relay failure'')],
      Inl fetchReviewsError)"
  by (simp add: fetchReviews_def reviewLoop.simps maxBatches_div failsSecond_def pageReviews_def
        js_def cursorText_def)

lemma oversizedPage_run:
  "fetchReviews oversizedPage (Some 570) 250 =
     ([oversizedPage (Some 570) 0 (Some (js ''*''))], Inr (replicate 301 0))"
  by (simp add: fetchReviews_def reviewLoop.simps maxBatches_div oversizedPage_def pageReviews_def
        js_def cursorText_def)

text \<open>
  Claim C7. For every product id and every positive limit, \<^verbatim>\<open>fetchReviews\<close> issues at most
  \<open>\<lceil>limit / 100\<rceil>\<close> page requests, and a request is the last one as soon as its response
  meets a stop condition (the call threw, the upstream reports failure, or the page
  has no reviews) or the number of reviews in the pages fetched so far reaches the limit.
  With the limit 250 there are at most 3 requests. In the witness the limit is 250 and
  there are three requests for pages of 100 reviews, two requests when the second
  response reports failure or is empty, and one request when the first page holds 301
  reviews.
\<close>

theorem fetchReviews_request_cap:
  "0 < limit \<Longrightarrow>
     int (length (fst (fetchReviews net appId limit))) \<le> \<lceil>real_of_int limit / 100\<rceil> \<and>
     (\<forall>j < length (fst (fetchReviews net appId limit)).
        stops (fst (fetchReviews net appId limit) ! j) \<or>
        limit \<le> int (length
                    (concat (map pageList (take (Suc j) (fst (fetchReviews net appId limit))))))
        \<longrightarrow> Suc j = length (fst (fetchReviews net appId limit))) \<and>
     (limit = 250 \<longrightarrow> length (fst (fetchReviews net appId limit)) \<le> 3)"
proof -
  assume pos: "0 < limit"
  obtain tr res where run: "reviewLoop net appId limit 0 [] (Some (js ''*'')) = (tr, res)"
    by (cases "reviewLoop net appId limit 0 [] (Some (js ''*''))") auto
  then have f: "fst (fetchReviews net appId limit) = tr"
    by (simp add: fetchReviews_def)
  from reviewLoop_count [OF run] pos
  have cap: "int (length tr) \<le> maxBatches limit"
    by (simp add: maxBatches_def batchSize_def)
  then have c1: "int (length tr) \<le> \<lceil>real_of_int limit / 100\<rceil>"
    by (simp add: maxBatches_def batchSize_def)
  have c2: "\<forall>j < length tr.
        stops (tr ! j) \<or> limit \<le> int (length (concat (map pageList (take (Suc j) tr))))
        \<longrightarrow> Suc j = length tr"
  proof (intro allI impI)
    fix j
    assume j: "j < length tr"
      and last: "stops (tr ! j) \<or> limit \<le> int (length (concat (map pageList (take (Suc j) tr))))"
    show "Suc j = length tr"
    proof (rule ccontr)
      assume "Suc j \<noteq> length tr"
      with j have "Suc j < length tr" by simp
      with reviewLoop_steps [OF run] have "\<not> stops (tr ! j)"
        and "int (length (concat (map pageList (take (Suc j) tr)))) < limit"
        by simp_all
      with last show False by simp
    qed
  qed
  from cap have c3: "limit = 250 \<longrightarrow> length tr \<le> 3"
    by (auto simp: maxBatches_div)
  from c1 c2 c3 show ?thesis unfolding f by (intro conjI)
qed

theorem fetchReviews_request_cap_witness:
  "(0::int) < 250 \<and>
   length (fst (fetchReviews fullPages (Some 570) 250)) = 3 \<and>
   \<not> stops (fst (fetchReviews fullPages (Some 570) 250) ! 1) \<and>
   stops (fst (fetchReviews reportsFailure (Some 570) 250) ! 1) \<and>
   length (fst (fetchReviews reportsFailure (Some 570) 250)) = 2 \<and>
   snd (fetchReviews reportsFailure (Some 570) 250) = Inr (replicate 100 0) \<and>
   stops (fst (fetchReviews runsDry (Some 570) 250) ! 1) \<and>
   length (fst (fetchReviews runsDry (Some 570) 250)) = 2 \<and>
   (250::int) \<le> int (length (concat (map pageList
                     (take 1 (fst (fetchReviews oversizedPage (Some 570) 250)))))) \<and>
   length (fst (fetchReviews oversizedPage (Some 570) 250)) = 1"
  using fetchReviews_request_cap [of 250 fullPages "Some 570"]
    fetchReviews_request_cap [of 250 reportsFailure "Some 570"]
    fetchReviews_request_cap [of 250 runsDry "Some 570"]
    fetchReviews_request_cap [of 250 oversizedPage "Some 570"]
  by (simp add: fullPages_run reportsFailure_run runsDry_run oversizedPage_run fullPages_def
        reportsFailure_def runsDry_def oversizedPage_def stops_def pageList_def)

text \<open>
  Claim C8. If a page request of the loop throws, \<^verbatim>\<open>fetchReviews\<close> throws the one error of
  its \<^verbatim>\<open>catch\<close> block and returns no list: the reviews of the pages fetched before are
  discarded. In the witness the first request adds 100 reviews and the second throws.
\<close>

theorem fetchReviews_all_or_nothing:
  "Threw e \<in> set (fst (fetchReviews net appId limit)) \<Longrightarrow>
     snd (fetchReviews net appId limit) = Inl fetchReviewsError"
proof -
  assume t: "Threw e \<in> set (fst (fetchReviews net appId limit))"
  obtain tr res where run: "reviewLoop net appId limit 0 [] (Some (js ''*'')) = (tr, res)"
    by (cases "reviewLoop net appId limit 0 [] (Some (js ''*''))") auto
  with t have "\<exists>e. Threw e \<in> set tr" by (auto simp: fetchReviews_def)
  from reviewLoop_thrown [OF run this] run show ?thesis
    by (simp add: fetchReviews_def)
qed

theorem fetchReviews_all_or_nothing_witness:
  "Threw (js ''relay failure'') \<in> set (fst (fetchReviews failsSecond (Some 570) 250)) \<and>
   added (fst (fetchReviews failsSecond (Some 570) 250) ! 0) = replicate 100 0 \<and>
   snd (fetchReviews failsSecond (Some 570) 250) = Inl fetchReviewsError"
  using fetchReviews_all_or_nothing [of "js ''relay failure''" failsSecond "Some 570" 250]
  by (simp add: failsSecond_run failsSecond_def added_def stops_def pageList_def)

text \<open>
  Claim C10, as stated, bounds the length of the returned list by \<open>\<lceil>limit / 100\<rceil> * 100\<close>
  for every limit and every run. The source asks for 100 reviews per page
  (\<^verbatim>\<open>num_per_page\<close>) and appends whatever list the response holds: a first page of 301
  reviews is returned whole for the limit 250. And for the limit \<open>- 250\<close> the loop does
  not run, the empty list is returned, and the bound of the claim is \<open>- 200\<close>.
\<close>

theorem fetchReviews_length_counterexample:
  "snd (fetchReviews oversizedPage (Some 570) 250) = Inr (replicate 301 0) \<and>
   \<not> int (length (replicate 301 (0::nat))) \<le> \<lceil>real_of_int 250 / 100\<rceil> * 100 \<and>
   snd (fetchReviews fullPages (Some 570) (- 250)) = Inr [] \<and>
   \<not> int (length ([] :: nat list)) \<le> \<lceil>real_of_int (- 250) / 100\<rceil> * 100"
  by (simp add: oversizedPage_run negative_limit_run)

text \<open>
  Claim C10, amended. For every limit, \<^verbatim>\<open>fetchReviews\<close> appends each page in full before
  it compares the count with the limit, so the returned list is the concatenation of
  the pages that the requests added and may be longer than the limit. When no page of
  the upstream holds more than 100 reviews, its length is at most
  \<open>max 0 \<lceil>limit / 100\<rceil> * 100\<close>; in the witness the limit 250 returns 300 reviews.
\<close>

theorem fetchReviews_length_bound:
  "(snd (fetchReviews net appId limit) = Inr rs \<longrightarrow>
      rs = concat (map added (fst (fetchReviews net appId limit)))) \<and>
   (honoursPageSize net appId \<and> snd (fetchReviews net appId limit) = Inr rs \<longrightarrow>
      int (length rs) \<le> max 0 \<lceil>real_of_int limit / 100\<rceil> * 100)"
proof -
  obtain tr res where run: "reviewLoop net appId limit 0 [] (Some (js ''*'')) = (tr, res)"
    by (cases "reviewLoop net appId limit 0 [] (Some (js ''*''))") auto
  then have f: "fst (fetchReviews net appId limit) = tr"
    and s: "snd (fetchReviews net appId limit) = res"
    by (simp_all add: fetchReviews_def)
  have whole: "rs = concat (map added tr)" if "res = Inr rs"
    using reviewLoop_result [OF run] that by simp
  have bound: "int (length rs) \<le> max 0 \<lceil>real_of_int limit / 100\<rceil> * 100"
    if h: "honoursPageSize net appId" and r: "res = Inr rs"
  proof -
    from reviewLoop_count [OF run] have cap: "int (length tr) \<le> max 0 (maxBatches limit)"
      by simp
    from reviewLoop_pages [OF run h] length_concat_bound [of tr added batchSize]
    have "int (length (concat (map added tr))) \<le> int (length tr) * batchSize" by blast
    also from cap have "\<dots> \<le> max 0 (maxBatches limit) * batchSize"
      by (simp add: batchSize_def)
    finally show ?thesis
      by (simp add: whole [OF r] maxBatches_def batchSize_def)
  qed
  from whole bound show ?thesis unfolding f s by blast
qed

theorem fetchReviews_length_bound_witness:
  "honoursPageSize fullPages (Some 570) \<and>
   snd (fetchReviews fullPages (Some 570) 250) = Inr (replicate 100 0 @ replicate 100 1 @ replicate 100 2) \<and>
   replicate 100 0 @ replicate 100 1 @ replicate 100 2 =
     concat (map added (fst (fetchReviews fullPages (Some 570) 250))) \<and>
   length (replicate 100 (0::nat) @ replicate 100 1 @ replicate 100 2) = 300 \<and>
   int (length (replicate 100 (0::nat) @ replicate 100 1 @ replicate 100 2))
     \<le> max 0 \<lceil>real_of_int 250 / 100\<rceil> * 100"
  using fetchReviews_length_bound [of fullPages "Some 570" 250 "replicate 100 0 @ replicate 100 1 @ replicate 100 2"]
    fullPages_honours [of "Some 570"]
  by (simp add: fullPages_run added_def stops_def pageList_def fullPages_def)

section \<open>Properties of the review filter\<close>

lemma isoDateMs_2025_01_01: "isoDateMs (js ''2025-01-01'') = Some 1735689600000"
  by (simp add: isoDateMs_def js_def isDigit_def decimal_def daysInMonth_def daysFromCivil_def)

lemma isoDateMs_2025_12_31: "isoDateMs (js ''2025-12-31'') = Some 1767139200000"
  by (simp add: isoDateMs_def js_def isDigit_def decimal_def daysInMonth_def daysFromCivil_def)

text \<open>Rounding leaves a whole number below \<open>2 ^ 53\<close> as it is, and rounds the tenth
  that is the exact quotient of 6 and 60 to the double nearest to 0.1.\<close>

lemma tiesToEven_int: "tiesToEven (of_int n) = n"
  by (simp add: tiesToEven_def)

lemma roundDouble_int:
  assumes "\<bar>m\<bar> < 2 ^ 53"
  shows "roundDouble (of_int m) = of_int m"
proof (cases "m = 0")
  case True
  then show ?thesis by (simp add: roundDouble_def)
next
  case False
  define e where "e = \<lfloor>log 2 \<bar>real_of_int m\<bar>\<rfloor>"
  from False have "1 \<le> \<bar>m\<bar>" by arith
  then have "real_of_int 1 \<le> real_of_int \<bar>m\<bar>" by (simp only: of_int_le_iff)
  then have one: "1 \<le> \<bar>real_of_int m\<bar>" by simp
  then have "0 \<le> log 2 \<bar>real_of_int m\<bar>" by simp
  then have e0: "0 \<le> e" by (simp add: e_def)
  from assms have "real_of_int \<bar>m\<bar> < real_of_int (2 ^ 53)" by (simp only: of_int_less_iff)
  then have "\<bar>real_of_int m\<bar> < 2 ^ 53" by simp
  with one have "log 2 \<bar>real_of_int m\<bar> < 53"
    by (simp add: log_less_iff powr_realpow [symmetric])
  then have e52: "e \<le> 52" by (simp add: e_def floor_le_iff)
  define k where "k = nat (52 - e)"
  from e0 have emax: "max e (- 1022) = e" by simp
  have "(2::real) powr real_of_int (e - 52) =
      (if 0 \<le> e - 52 then 2 ^ nat (e - 52) else inverse (2 ^ nat (- (e - 52))))"
    by (rule powr_real_of_int) simp
  also from e52 have "\<dots> = inverse (2 ^ k)"
    by (cases "e = 52") (simp_all add: k_def)
  finally have "2 powr real_of_int (e - 52) = inverse (2 ^ k)" .
  then have u: "2 powr (real_of_int e - 52) = inverse (2 ^ k)" by simp
  have q: "real_of_int m / inverse (2 ^ k) = real_of_int (m * 2 ^ k)"
    by (simp add: field_simps)
  have "roundDouble (of_int m) = of_int (tiesToEven (real_of_int m / inverse (2 ^ k))) * inverse (2 ^ k)"
    using False by (simp add: roundDouble_def e_def [symmetric] emax u)
  also have "\<dots> = real_of_int (m * 2 ^ k) * inverse (2 ^ k)"
    by (simp only: q tiesToEven_int)
  also have "\<dots> = of_int m" by simp
  finally show ?thesis .
qed


lemma floor_log_tenth: "\<lfloor>log 2 \<bar>6 / 60 :: real\<bar>\<rfloor> = - 4"
proof -
  have a: "(2::real) powr (- 4) = 1 / 16" and b: "(2::real) powr (- 3) = 1 / 8"
    by (simp_all add: powr_minus_divide)
  have "- 4 \<le> log 2 (1 / 10 :: real)"
    by (subst le_log_iff) (simp_all add: a)
  moreover have "log 2 (1 / 10 :: real) < - 3"
    by (subst log_less_iff) (simp_all add: b)
  ultimately show ?thesis
    by (simp add: floor_eq_iff)
qed

lemma roundDouble_tenth: "roundDouble (6 / 60) = 3602879701896397 / 36028797018963968"
proof -
  have u: "(2::real) powr (- 56) = 1 / 72057594037927936"
    by (simp add: powr_minus_divide)
  have fl: "\<lfloor>36028797018963968 / 5 :: real\<rfloor> = 7205759403792793"
    by simp
  have t: "tiesToEven (36028797018963968 / 5) = 7205759403792794"
    by (simp add: tiesToEven_def fl)
  from floor_log_tenth
  have "roundDouble (6 / 60) * 72057594037927936 =
          real_of_int (tiesToEven (36028797018963968 / 5))"
    by (simp add: roundDouble_def u)
  then have "roundDouble (6 / 60) * 72057594037927936 = 7205759403792794"
    by (simp only: t)
  then show ?thesis by simp
qed

lemma roundDouble_tenth_normal: "roundDouble (1 / 10) = 3602879701896397 / 36028797018963968"
  using roundDouble_tenth by simp

lemma roundDouble_numeral:
  "\<bar>numeral n :: int\<bar> < 2 ^ 53 \<Longrightarrow> roundDouble (numeral n) = numeral n"
  using roundDouble_int [of "numeral n"] by simp

text \<open>
  Claim C9. A review is kept by the filter if and only if both dates of the criteria are
  valid, its playtime in hours, the quotient \<^verbatim>\<open>playtime_forever / 60\<close> as the program
  computes it, lies in the inclusive bounds \<open>[minPlaytimeHours, maxPlaytimeHours]\<close>, and
  its creation time lies between the seconds of the start date and the seconds of the
  end date plus the 86400 seconds of one day, both bounds included. In the witness the
  review with 5 hours passes the criteria of the scenario and the review with 15 hours
  fails them.
\<close>

theorem applyFilters_iff:
  "r \<in> set (applyFilters pf filters rs) \<longleftrightarrow>
     r \<in> set rs \<and>
     (\<exists>s e. getTime pf (startDate filters) = Some s \<and> getTime pf (endDate filters) = Some e \<and>
        minPlaytimeHours filters \<le> quot pf (real_of_int (playtime_forever (author r))) 60 \<and>
        quot pf (real_of_int (playtime_forever (author r))) 60 \<le> maxPlaytimeHours filters \<and>
        quot pf s 1000 \<le> real_of_int (timestamp_created r) \<and>
        real_of_int (timestamp_created r) \<le> plus pf (quot pf e 1000) 86400)"
  by (cases "getTime pf (startDate filters)"; cases "getTime pf (endDate filters)")
     (auto simp: applyFilters_def reviewMatches_def startTs_def endTs_def Let_def)

theorem applyFilters_iff_witness:
  "played5h \<in> set (applyFilters doubles year2025 [played5h, played15h]) \<and>
   played15h \<notin> set (applyFilters doubles year2025 [played5h, played15h])"
  using applyFilters_iff [of played5h doubles year2025 "[played5h, played15h]"]
    applyFilters_iff [of played15h doubles year2025 "[played5h, played15h]"]
  by (simp add: doubles_def year2025_def played5h_def played15h_def isoDateMs_2025_01_01
        isoDateMs_2025_12_31 roundDouble_numeral)

text \<open>At the lower bound: with the double nearest to 0.1 as the lower bound, the review
  with 6 minutes of playtime passes, as the quotient of the program is that double.\<close>

lemma six_minutes_pass: "reviewMatches doubles fromTenth played6min"
  by (simp add: reviewMatches_def startTs_def endTs_def doubles_def fromTenth_def year2025_def
        played6min_def isoDateMs_2025_01_01 isoDateMs_2025_12_31 roundDouble_numeral
        roundDouble_tenth_normal Let_def)

section \<open>Properties of the Origin Classifier\<close>

lemmas signal_defs =
  isVip_def lowerName_def lowerDevs_def lowerPubs_def nameOf_def developers_def
  publishersOf_def supportedLangs_def emailOf_def supportUrl_def hasChineseChars_def
  isKnownEntity_def hasCulturalKeyword_def devHasChinese_def pubHasChinese_def devIsKnown_def
  pubIsKnown_def emailIsRegional_def urlIsRegional_def hasChineseAudio_def hasEnglishAudio_def
  isForeignGiant_def isDevForeignGiant_def isPubForeignGiant_def
  KNOWN_CN_ENTITIES_def CULTURAL_KEYWORDS_def VIP_WHITELIST_def knownForeignGiants_def
  js_def asciiLower_def endsWith_def

lemma capcomDragon_signals:
  "\<not> isVip asciiLower capcomDragon"
  "\<not> hasChineseChars (nameOf capcomDragon)"
  "hasCulturalKeyword (lowerName asciiLower capcomDragon)"
  "\<not> devHasChinese capcomDragon"
  "\<not> pubHasChinese capcomDragon"
  "\<not> devIsKnown asciiLower capcomDragon"
  "\<not> pubIsKnown asciiLower capcomDragon"
  "\<not> emailIsRegional asciiLower capcomDragon"
  "\<not> urlIsRegional asciiLower capcomDragon"
  "\<not> hasChineseAudio capcomDragon"
  "isDevForeignGiant asciiLower capcomDragon"
  "isPubForeignGiant asciiLower capcomDragon"
  "\<not> includesStr (emailOf asciiLower capcomDragon) (js ''.cn'')"
  by (simp_all add: signal_defs capcomDragon_def)

lemma capcomIndie_signals:
  "\<not> isVip asciiLower capcomIndie"
  "\<not> hasChineseChars (nameOf capcomIndie)"
  "hasCulturalKeyword (lowerName asciiLower capcomIndie)"
  "\<not> devHasChinese capcomIndie"
  "\<not> pubHasChinese capcomIndie"
  "\<not> devIsKnown asciiLower capcomIndie"
  "\<not> pubIsKnown asciiLower capcomIndie"
  "\<not> emailIsRegional asciiLower capcomIndie"
  "\<not> urlIsRegional asciiLower capcomIndie"
  "\<not> hasChineseAudio capcomIndie"
  "isDevForeignGiant asciiLower capcomIndie"
  "\<not> isPubForeignGiant asciiLower capcomIndie"
  by (simp_all add: signal_defs capcomIndie_def)

lemma wukong_signals:
  "\<not> isVip asciiLower wukong"
  "\<not> hasChineseChars (nameOf wukong)"
  "hasCulturalKeyword (lowerName asciiLower wukong)"
  "\<not> devHasChinese wukong"
  "\<not> pubHasChinese wukong"
  "devIsKnown asciiLower wukong"
  "pubIsKnown asciiLower wukong"
  "\<not> emailIsRegional asciiLower wukong"
  "\<not> urlIsRegional asciiLower wukong"
  "\<not> hasChineseAudio wukong"
  "\<not> isDevForeignGiant asciiLower wukong"
  "\<not> isPubForeignGiant asciiLower wukong"
  by (simp_all add: signal_defs wukong_def)

lemma windsMeet_vip: "isVip asciiLower windsMeet"
  by (simp add: signal_defs windsMeet_def)

lemma capcomDragon_score: "domesticScore asciiLower capcomDragon = - 275"
  by (simp add: domesticScore_def pubPenalty_def capcomDragon_signals)

lemma capcomIndie_score: "domesticScore asciiLower capcomIndie = - 175"
  by (simp add: domesticScore_def pubPenalty_def capcomIndie_signals)

lemma wukong_score: "domesticScore asciiLower wukong = 110"
  by (simp add: domesticScore_def pubPenalty_def wukong_signals)

lemma verify_delivered:
  "verifyDomesticGame lower game (delivered game d) = classify lower game d"
  by (simp add: verifyDomesticGame_def delivered_def)

lemma classify_score:
  "classify lower game d = Some g \<Longrightarrow>
     score g = Some (if isVip lower d then 999 else domesticScore lower d) \<and>
     (isVip lower d \<or> 25 \<le> domesticScore lower d) \<and> appid g = appid game"
  by (auto simp: classify_def annotate_def split: if_splits)

text \<open>
  Claim C1. Every candidate that \<^verbatim>\<open>verifyDomesticGame\<close> returns carries a score that is
  the VIP value 999 or at least 25. For a response that delivers a detail payload for
  the candidate, a candidate is returned if and only if the VIP pass fired or the total
  score of the payload is at least 25; its score is then 999 after the VIP pass and the
  total score otherwise. A payload without VIP match that scores below 25 gives
  \<^verbatim>\<open>null\<close>.
\<close>

theorem verifyDomesticGame_threshold:
  "(verifyDomesticGame lower game out = Some g \<longrightarrow>
      score g = Some 999 \<or> (\<exists>s. score g = Some s \<and> 25 \<le> s)) \<and>
   (out = Returned (Some entries) \<and> entries (appid game) = Some entry \<and>
    entry_success entry \<and> entry_data entry = Some d \<longrightarrow>
      ((\<exists>g'. verifyDomesticGame lower game out = Some g') \<longleftrightarrow>
          isVip lower d \<or> 25 \<le> domesticScore lower d) \<and>
      (verifyDomesticGame lower game out = Some g \<longrightarrow>
          score g = Some (if isVip lower d then 999 else domesticScore lower d)) \<and>
      (\<not> isVip lower d \<and> domesticScore lower d < 25 \<longrightarrow>
          verifyDomesticGame lower game out = None))"
proof -
  have every: "score g = Some 999 \<or> (\<exists>s. score g = Some s \<and> 25 \<le> s)"
    if "verifyDomesticGame lower game out = Some g"
  proof -
    from that obtain d' where "classify lower game d' = Some g"
      by (auto simp: verifyDomesticGame_def split: fetched.splits option.splits if_splits)
    from classify_score [OF this] show ?thesis by (auto split: if_splits)
  qed
  have payload: "((\<exists>g'. verifyDomesticGame lower game out = Some g') \<longleftrightarrow>
          isVip lower d \<or> 25 \<le> domesticScore lower d) \<and>
      (verifyDomesticGame lower game out = Some g \<longrightarrow>
          score g = Some (if isVip lower d then 999 else domesticScore lower d)) \<and>
      (\<not> isVip lower d \<and> domesticScore lower d < 25 \<longrightarrow>
          verifyDomesticGame lower game out = None)"
    if "out = Returned (Some entries)" "entries (appid game) = Some entry"
      "entry_success entry" "entry_data entry = Some d"
  proof -
    from that have v: "verifyDomesticGame lower game out = classify lower game d"
      by (simp add: verifyDomesticGame_def)
    show ?thesis unfolding v
      by (auto simp: classify_def annotate_def)
  qed
  have A: "verifyDomesticGame lower game out = Some g \<longrightarrow>
      score g = Some 999 \<or> (\<exists>s. score g = Some s \<and> 25 \<le> s)"
  proof
    assume "verifyDomesticGame lower game out = Some g"
    then show "score g = Some 999 \<or> (\<exists>s. score g = Some s \<and> 25 \<le> s)" by (rule every)
  qed
  have B: "out = Returned (Some entries) \<and> entries (appid game) = Some entry \<and>
    entry_success entry \<and> entry_data entry = Some d \<longrightarrow>
      ((\<exists>g'. verifyDomesticGame lower game out = Some g') \<longleftrightarrow>
          isVip lower d \<or> 25 \<le> domesticScore lower d) \<and>
      (verifyDomesticGame lower game out = Some g \<longrightarrow>
          score g = Some (if isVip lower d then 999 else domesticScore lower d)) \<and>
      (\<not> isVip lower d \<and> domesticScore lower d < 25 \<longrightarrow>
          verifyDomesticGame lower game out = None)"
  proof
    assume h: "out = Returned (Some entries) \<and> entries (appid game) = Some entry \<and>
      entry_success entry \<and> entry_data entry = Some d"
    then have "out = Returned (Some entries)" "entries (appid game) = Some entry"
      "entry_success entry" "entry_data entry = Some d" by simp_all
    then show "((\<exists>g'. verifyDomesticGame lower game out = Some g') \<longleftrightarrow>
          isVip lower d \<or> 25 \<le> domesticScore lower d) \<and>
      (verifyDomesticGame lower game out = Some g \<longrightarrow>
          score g = Some (if isVip lower d then 999 else domesticScore lower d)) \<and>
      (\<not> isVip lower d \<and> domesticScore lower d < 25 \<longrightarrow>
          verifyDomesticGame lower game out = None)" by (rule payload)
  qed
  from A B show ?thesis by (rule conjI)
qed

theorem verifyDomesticGame_threshold_witness:
  "verifyDomesticGame asciiLower candidate (delivered candidate wukong)
     = Some (annotate candidate wukong 110) \<and>
   score (annotate candidate wukong 110) = Some 110 \<and>
   domesticScore asciiLower wukong = 110 \<and> \<not> isVip asciiLower wukong \<and>
   domesticScore asciiLower capcomDragon = - 275 \<and> \<not> isVip asciiLower capcomDragon \<and>
   verifyDomesticGame asciiLower candidate (delivered candidate capcomDragon) = None"
proof -
  have w: "delivered candidate wukong =
      Returned (Some [appid candidate \<mapsto> \<lparr>entry_success = True, entry_data = Some wukong\<rparr>])"
    and c: "delivered candidate capcomDragon =
      Returned (Some [appid candidate \<mapsto> \<lparr>entry_success = True, entry_data = Some capcomDragon\<rparr>])"
    by (simp_all add: delivered_def)
  have vw: "verifyDomesticGame asciiLower candidate (delivered candidate wukong)
     = Some (annotate candidate wukong 110)"
    by (simp add: verify_delivered classify_def wukong_score wukong_signals)
  from verifyDomesticGame_threshold
      [of asciiLower candidate "delivered candidate wukong" "annotate candidate wukong 110"
          "[appid candidate \<mapsto> \<lparr>entry_success = True, entry_data = Some wukong\<rparr>]"
          "\<lparr>entry_success = True, entry_data = Some wukong\<rparr>" wukong] w vw
  have sw: "score (annotate candidate wukong 110) = Some 110"
    by (simp add: wukong_score wukong_signals)
  from verifyDomesticGame_threshold
      [of asciiLower candidate "delivered candidate capcomDragon" candidate
          "[appid candidate \<mapsto> \<lparr>entry_success = True, entry_data = Some capcomDragon\<rparr>]"
          "\<lparr>entry_success = True, entry_data = Some capcomDragon\<rparr>" capcomDragon] c
  have vc: "verifyDomesticGame asciiLower candidate (delivered candidate capcomDragon) = None"
    by (simp add: capcomDragon_score capcomDragon_signals)
  from vw sw vc show ?thesis
    by (simp add: wukong_score wukong_signals capcomDragon_score capcomDragon_signals)
qed

text \<open>
  Claim C5, as stated, gives the score \<open>25 - 200 = - 175\<close> to every payload whose developer
  matches the foreign-studio list, whose title is no VIP match and has a cultural keyword,
  and that has none of the other positive signals. The payload \<open>capcomDragon\<close> is such a
  payload; its publisher matches the foreign-studio list as well, the source subtracts
  another 100, and the score is \<open>- 275\<close>.
\<close>

theorem foreign_studio_score_counterexample:
  "isDevForeignGiant asciiLower capcomDragon \<and> \<not> isVip asciiLower capcomDragon \<and>
   hasCulturalKeyword (lowerName asciiLower capcomDragon) \<and>
   \<not> hasChineseChars (nameOf capcomDragon) \<and>
   \<not> devHasChinese capcomDragon \<and> \<not> pubHasChinese capcomDragon \<and>
   \<not> devIsKnown asciiLower capcomDragon \<and> \<not> pubIsKnown asciiLower capcomDragon \<and>
   \<not> emailIsRegional asciiLower capcomDragon \<and> \<not> urlIsRegional asciiLower capcomDragon \<and>
   \<not> hasChineseAudio capcomDragon \<and>
   domesticScore asciiLower capcomDragon = - 275 \<and>
   domesticScore asciiLower capcomDragon \<noteq> 25 - 200"
  by (simp add: capcomDragon_signals capcomDragon_score)

text \<open>
  Claim C5, amended. For such a payload the score is \<open>25 - 200 = - 175\<close>, or
  \<open>25 - 200 - 100 = - 275\<close> when a publisher matches the foreign-studio list too and the
  support email does not contain \<^verbatim>\<open>.cn\<close>. Both are below the threshold 25, and the
  classifier returns \<^verbatim>\<open>null\<close>.
\<close>

theorem foreign_studio_rejected:
  assumes "isDevForeignGiant lower d" and "\<not> isVip lower d"
    and "hasCulturalKeyword (lowerName lower d)" and "\<not> hasChineseChars (nameOf d)"
    and "\<not> devHasChinese d" and "\<not> pubHasChinese d"
    and "\<not> devIsKnown lower d" and "\<not> pubIsKnown lower d"
    and "\<not> emailIsRegional lower d" and "\<not> urlIsRegional lower d"
    and "\<not> hasChineseAudio d"
  shows "domesticScore lower d =
           (if isPubForeignGiant lower d \<and> \<not> includesStr (emailOf lower d) (js ''.cn'')
            then - 275 else - 175) \<and>
         domesticScore lower d < 25 \<and>
         verifyDomesticGame lower game (delivered game d) = None"
proof -
  from assms have s: "domesticScore lower d =
           (if isPubForeignGiant lower d \<and> \<not> includesStr (emailOf lower d) (js ''.cn'')
            then - 275 else - 175)"
    by (simp add: domesticScore_def pubPenalty_def)
  then have low: "domesticScore lower d < 25" by (simp split: if_splits)
  with assms(2) have "verifyDomesticGame lower game (delivered game d) = None"
    by (simp add: verify_delivered classify_def)
  with s low show ?thesis by blast
qed

theorem foreign_studio_rejected_witness:
  "domesticScore asciiLower capcomIndie = - 175 \<and>
   verifyDomesticGame asciiLower candidate (delivered candidate capcomIndie) = None \<and>
   domesticScore asciiLower capcomDragon = - 275 \<and>
   verifyDomesticGame asciiLower candidate (delivered candidate capcomDragon) = None"
  using foreign_studio_rejected [of asciiLower capcomIndie candidate]
    foreign_studio_rejected [of asciiLower capcomDragon candidate]
  by (simp add: capcomIndie_signals capcomDragon_signals)

section \<open>Properties of the Search Page Scanner\<close>

lemmas row_defs =
  parseRow_def rowOf_def releaseDate_def tooltip_def reviewCount_def atMost1000_def orEmpty_def
  trim_def isSpace_def isCountChar_def isDigit_def labelFollows_def parseInt_def
  parseMagnitude_def decimal_def js_def

text \<open>The rule of the source for one row: an id that is not empty, a year from 2025 to
  2099 in the release label, and a review count that is not at most 1000.\<close>

lemma parseRow_iff:
  "(\<exists>g. parseRow row = Some g) \<longleftrightarrow>
     orEmpty (ds_appid row) \<noteq> [] \<and> yearMatch (releaseDate row) \<and> \<not> atMost1000 (reviewCount row)"
  by (simp add: parseRow_def)

lemma parseRow_counted:
  "reviewCount row = Some n \<Longrightarrow>
     (\<exists>g. parseRow row = Some g) \<longleftrightarrow>
       orEmpty (ds_appid row) \<noteq> [] \<and> yearMatch (releaseDate row) \<and> 1000 < n"
  by (auto simp: parseRow_def atMost1000_def)

text \<open>The boundary cases of the release label and of the review count.\<close>

lemma yearMatch_boundaries:
  "\<not> yearMatch (js ''2024'')" "yearMatch (js ''2025'')" "yearMatch (js ''Q1 2026'')"
  "yearMatch (js ''21 Dec, 2099'')" "\<not> yearMatch (js ''2100'')"
  by (simp_all add: js_def)

lemma reviewCount_boundaries:
  "reviewCount (rowOf ''730'' ''2025'' ''1,000 user reviews'') = Some 1000"
  "parseRow (rowOf ''730'' ''2025'' ''1,000 user reviews'') = None"
  "reviewCount (rowOf ''730'' ''2025'' ''1,001 user reviews'') = Some 1001"
  "\<exists>g. parseRow (rowOf ''730'' ''2025'' ''1,001 user reviews'') = Some g"
  by (simp_all add: row_defs)

text \<open>
  Claim C4 requires a parsed review count above 1000 for a row to yield a candidate. The
  row below has the id 730, the release label 2025 and the tooltip
  \<^verbatim>\<open>Mixed, user reviews vary\<close>. The pattern of the source matches at the comma, the group
  without commas is empty, \<^verbatim>\<open>parseInt\<close> gives \<^verbatim>\<open>NaN\<close>, the test
  \<^verbatim>\<open>reviewCount <= 1000\<close> is false, and the row yields a candidate whose review count is
  \<^verbatim>\<open>NaN\<close>.
\<close>

theorem parseRow_comma_tooltip:
  "reviewCount (rowOf ''730'' ''2025'' ''Mixed, user reviews vary'') = None \<and>
   (\<exists>g. parseRow (rowOf ''730'' ''2025'' ''Mixed, user reviews vary'') = Some g \<and>
        appid g = Some 730 \<and> total_reviews g = Some None)"
  by (simp add: row_defs)

section \<open>Properties of the Scan Orchestrator\<close>

subsection \<open>Ids\<close>

lemma numericIds_Nil [simp]: "numericIds [] = []"
  by (simp add: numericIds_def)

lemma set_numericIds: "set (numericIds gs) = {n. \<exists>g \<in> set gs. appid g = Some n}"
  by (induction gs) (auto simp: numericIds_def split: option.splits)

lemma numericIds_Cons:
  "numericIds (g # gs) = (case appid g of None \<Rightarrow> numericIds gs | Some n \<Rightarrow> n # numericIds gs)"
  by (simp add: numericIds_def split: option.splits)

lemma numericIds_append: "numericIds (xs @ ys) = numericIds xs @ numericIds ys"
  by (simp add: numericIds_def List.map_filter_def)

lemma uniqueIds_iff: "uniqueIds gs \<longleftrightarrow> distinct (numericIds gs)"
proof (induction gs)
  case Nil
  show ?case by (simp add: uniqueIds_def)
next
  case (Cons g gs)
  then show ?case
    by (cases "appid g")
       (auto simp: uniqueIds_def numericIds_Cons set_numericIds strictEq_def)
qed

lemma pushNew_distinct: "distinct (numericIds cs) \<Longrightarrow> distinct (numericIds (pushNew cs g))"
  by (cases "appid g")
     (auto simp: pushNew_def numericIds_append numericIds_Cons set_numericIds strictEq_def
        list_ex_iff)

lemma foldl_pushNew_distinct:
  "distinct (numericIds cs) \<Longrightarrow> distinct (numericIds (foldl pushNew cs gs))"
  by (induction gs arbitrary: cs) (simp_all add: pushNew_distinct)

lemma scanPages_distinct:
  "scanPages onProgress pages page cs = Inr cands \<Longrightarrow> distinct (numericIds cs) \<Longrightarrow>
     distinct (numericIds cands)"
proof (induction onProgress pages page cs rule: scanPages.induct)
  case (1 onProgress pages page candidates)
  show ?case
  proof (cases "page < MAX_PAGES")
    case False
    with "1.prems" show ?thesis by (simp add: scanPages.simps [of _ _ page])
  next
    case True
    show ?thesis
    proof (cases "notify onProgress
                (Scanning (page + 1) (min (page + PAGE_CONCURRENCY) MAX_PAGES) MAX_PAGES)")
      case (Some e)
      with True "1.prems" show ?thesis by (simp add: scanPages.simps [of _ _ page])
    next
      case None
      with True "1.prems"(1)
      have "scanPages onProgress pages (page + PAGE_CONCURRENCY)
               (foldl pushNew candidates
                  (concat (map (\<lambda>p. fetchSearchPage (pages p))
                             [page ..< min (page + PAGE_CONCURRENCY) MAX_PAGES]))) = Inr cands"
        by (simp add: scanPages.simps [of _ _ page])
      from "1.IH" [OF True None this] "1.prems"(2) show ?thesis
        by (simp add: foldl_pushNew_distinct)
    qed
  qed
qed

lemma verify_appid: "verifyDomesticGame lower g out = Some res \<Longrightarrow> appid res = appid g"
  by (auto simp: verifyDomesticGame_def classify_def annotate_def
           split: fetched.splits option.splits if_splits)

lemma verify_total_reviews:
  "verifyDomesticGame lower g out = Some res \<Longrightarrow> total_reviews res = total_reviews g"
  by (auto simp: verifyDomesticGame_def classify_def annotate_def
           split: fetched.splits option.splits if_splits)

lemma verifyFrom_ids: "set (numericIds (verifyFrom lower details k gs)) \<subseteq> set (numericIds gs)"
proof (induction gs arbitrary: k)
  case Nil
  show ?case by simp
next
  case (Cons g gs)
  show ?case
  proof (cases "verifyDomesticGame lower g (details k)")
    case None
    with Cons [of "Suc k"] show ?thesis
      by (cases "appid g") (auto simp: numericIds_Cons)
  next
    case (Some res)
    with Cons [of "Suc k"] verify_appid [OF Some] show ?thesis
      by (cases "appid g") (auto simp: numericIds_Cons)
  qed
qed

lemma verifyFrom_distinct:
  "distinct (numericIds gs) \<Longrightarrow> distinct (numericIds (verifyFrom lower details k gs))"
proof (induction gs arbitrary: k)
  case Nil
  show ?case by simp
next
  case (Cons g gs)
  show ?case
  proof (cases "verifyDomesticGame lower g (details k)")
    case None
    with Cons.IH [of "Suc k"] Cons.prems show ?thesis
      by (cases "appid g") (auto simp: numericIds_Cons)
  next
    case (Some res)
    with Cons.IH [of "Suc k"] Cons.prems verify_appid [OF Some]
      verifyFrom_ids [of lower details "Suc k" gs]
    show ?thesis
      by (cases "appid g") (auto simp: numericIds_Cons)
  qed
qed

lemma verifyFrom_append:
  "verifyFrom lower details k (xs @ ys) =
     verifyFrom lower details k xs @ verifyFrom lower details (k + length xs) ys"
  by (induction xs arbitrary: k) (auto split: option.splits)

text \<open>Phase 2 hands the candidates to the classifier in their order, each index once:
  the candidates classified are a prefix of the list, and \<^verbatim>\<open>validGames\<close> holds the
  results of exactly these.\<close>

lemma verifyChunks_prefix:
  "verifyChunks lower onProgress details cands i done valid = v \<Longrightarrow>
   done = take i cands \<Longrightarrow> valid = verifyFrom lower details 0 (take i cands) \<Longrightarrow>
     \<exists>k. classified v = take k cands \<and>
         validGames v = verifyFrom lower details 0 (take k cands) \<and>
         (thrown v = None \<longrightarrow> classified v = cands)"
proof (induction lower onProgress details cands i "done" valid rule: verifyChunks.induct)
  case (1 lower onProgress details candidates i "done" valid)
  show ?case
  proof (cases "i < length candidates")
    case False
    with "1.prems" have "v = \<lparr>classified = done, validGames = valid, thrown = None\<rparr>"
      by (simp add: verifyChunks.simps [of _ _ _ candidates i])
    with False "1.prems" show ?thesis by (intro exI [of _ i]) auto
  next
    case True
    show ?thesis
    proof (cases "notify onProgress
                (Deep (min (i + CHUNK_SIZE) (length candidates)) (length candidates))")
      case (Some e)
      with True "1.prems" have "v = \<lparr>classified = done, validGames = valid, thrown = Some e\<rparr>"
        by (simp add: verifyChunks.simps [of _ _ _ candidates i])
      with "1.prems" show ?thesis by (intro exI [of _ i]) auto
    next
      case None
      with True "1.prems"(1)
      have run: "verifyChunks lower onProgress details candidates (i + CHUNK_SIZE)
               (done @ take CHUNK_SIZE (drop i candidates))
               (valid @ verifyFrom lower details i (take CHUNK_SIZE (drop i candidates))) = v"
        by (simp add: verifyChunks.simps [of _ _ _ candidates i])
      have t: "take (i + CHUNK_SIZE) candidates =
                 take i candidates @ take CHUNK_SIZE (drop i candidates)"
        by (simp add: take_add)
      from True have len: "length (take i candidates) = i" by simp
      have d: "done @ take CHUNK_SIZE (drop i candidates) = take (i + CHUNK_SIZE) candidates"
        using "1.prems"(2) t by simp
      have w: "valid @ verifyFrom lower details i (take CHUNK_SIZE (drop i candidates)) =
                 verifyFrom lower details 0 (take (i + CHUNK_SIZE) candidates)"
        using "1.prems"(3) len by (simp add: t verifyFrom_append)
      from "1.IH" [OF True None run d w] show ?thesis .
    qed
  qed
qed

lemma insort_numericIds:
  "distinct (numericIds (insort_key f g gs)) = distinct (numericIds (g # gs))"
proof (induction gs)
  case Nil
  show ?case by simp
next
  case (Cons a gs)
  have "set (numericIds (insort_key f g gs)) = set (numericIds (g # gs))"
    by (simp add: set_numericIds set_insort_key)
  with Cons show ?case
    by (cases "appid a"; cases "appid g") (auto simp: numericIds_Cons)
qed

lemma sort_numericIds: "distinct (numericIds (sort_key f gs)) = distinct (numericIds gs)"
proof (induction gs)
  case Nil
  show ?case by simp
next
  case (Cons g gs)
  then show ?case
    by (cases "appid g") (auto simp: insort_numericIds numericIds_Cons set_numericIds)
qed

lemma numericIds_take: "distinct (numericIds gs) \<Longrightarrow> distinct (numericIds (take k gs))"
proof -
  assume d: "distinct (numericIds gs)"
  have "numericIds gs = numericIds (take k gs) @ numericIds (drop k gs)"
    by (simp add: numericIds_append [symmetric])
  with d show ?thesis by (metis distinct_append)
qed

lemma sortByReviews_sorted: "sortedByReviews (sortByReviews gs)"
proof -
  have "sorted (map (\<lambda>g. - reviewsOrZero g) (sort_key (\<lambda>g. - reviewsOrZero g) gs))"
    by (rule sorted_sort_key)
  then show ?thesis
    by (simp add: sortedByReviews_def sortByReviews_def sorted_map sorted_wrt_map)
qed

subsection \<open>The example scan\<close>

lemma page0: "fetchSearchPage (examplePages 0) = nineListed"
  by (simp add: fetchSearchPage_def examplePages_def exampleRows_def nineListed_def listed_def
        row_defs)

lemma page1: "fetchSearchPage (examplePages (Suc 0)) = [listed 1 2000 ''2,000 user reviews'']"
  by (simp add: fetchSearchPage_def examplePages_def listed_def row_defs)

lemma page_failed: "2 \<le> p \<Longrightarrow> fetchSearchPage (examplePages p) = []"
  by (simp add: fetchSearchPage_def examplePages_def)

lemma appid_listed: "appid (listed i n tip) = Some i"
  by (simp add: listed_def)

lemma reviewsOrZero_accepted: "reviewsOrZero (accepted i n tip) = n"
  by (simp add: accepted_def annotate_def listed_def reviewsOrZero_def)

lemma appid_accepted: "appid (accepted i n tip) = Some i"
  by (simp add: accepted_def annotate_def listed_def)

lemma example_group0:
  "foldl pushNew [] (nineListed @ [listed 1 2000 ''2,000 user reviews''] @ []) = nineListed"
  by (simp add: nineListed_def pushNew_def appid_listed strictEq_def)

lemma verify_example:
  "verifyDomesticGame asciiLower (listed i n tip) (exampleDetails k) = Some (accepted i n tip)"
  by (simp add: verifyDomesticGame_def exampleDetails_def classify_def windsMeet_vip accepted_def)

lemma example_chunk0: "verifyFrom asciiLower exampleDetails 0 (take 8 nineListed) = firstChunk"
  by (simp add: nineListed_def firstChunk_def verify_example)

lemma scanPages_rest:
  "(\<And>p. page \<le> p \<Longrightarrow> fetchSearchPage (pages p) = []) \<Longrightarrow>
   (\<And>a b c. notify onProgress (Scanning a b c) = None) \<Longrightarrow>
     scanPages onProgress pages page cs = Inr cs"
proof (induction onProgress pages page cs rule: scanPages.induct)
  case (1 onProgress pages page candidates)
  show ?case
  proof (cases "page < MAX_PAGES")
    case False
    then show ?thesis by (simp add: scanPages.simps [of _ _ page])
  next
    case True
    have none: "notify onProgress
        (Scanning (page + 1) (min (page + PAGE_CONCURRENCY) MAX_PAGES) MAX_PAGES) = None"
      by (rule "1.prems")
    have empty: "concat (map (\<lambda>p. fetchSearchPage (pages p))
                   [page ..< min (page + PAGE_CONCURRENCY) MAX_PAGES]) = []"
      by (simp add: "1.prems"(1))
    have step: "scanPages onProgress pages page candidates =
          scanPages onProgress pages (page + PAGE_CONCURRENCY)
            (foldl pushNew candidates
               (concat (map (\<lambda>p. fetchSearchPage (pages p))
                          [page ..< min (page + PAGE_CONCURRENCY) MAX_PAGES])))"
      using True none by (subst scanPages.simps) simp
    have "scanPages onProgress pages (page + PAGE_CONCURRENCY)
            (foldl pushNew candidates
               (concat (map (\<lambda>p. fetchSearchPage (pages p))
                          [page ..< min (page + PAGE_CONCURRENCY) MAX_PAGES]))) =
          Inr (foldl pushNew candidates
               (concat (map (\<lambda>p. fetchSearchPage (pages p))
                          [page ..< min (page + PAGE_CONCURRENCY) MAX_PAGES])))"
      by (rule "1.IH" [OF True none]) (simp_all add: "1.prems")
    then show ?thesis
      unfolding step empty by simp
  qed
qed

lemma notify_example_scanning: "notify throwsAtSecondChunk (Scanning a b c) = None"
  by (simp add: notify_def throwsAtSecondChunk_def)

lemma notify_example_verifying: "notify throwsAtSecondChunk (Verifying n) = None"
  by (simp add: notify_def throwsAtSecondChunk_def)

lemma notify_example_deep:
  "notify throwsAtSecondChunk (Deep a b) =
     (if a = 9 \<and> b = 9 then Some (js ''progress view is gone'') else None)"
  by (simp add: notify_def throwsAtSecondChunk_def)

lemma example_phase1: "scanPages throwsAtSecondChunk examplePages 0 [] = Inr nineListed"
proof -
  have rest: "scanPages throwsAtSecondChunk examplePages 3 nineListed = Inr nineListed"
    by (rule scanPages_rest) (simp_all add: page_failed notify_example_scanning)
  have first: "concat (map (\<lambda>p. fetchSearchPage (examplePages p)) [0 ..< 3]) =
      nineListed @ [listed 1 2000 ''2,000 user reviews''] @ []"
  proof -
    have "[0 ..< 3] = [0, 1, 2::nat]" by (simp add: upt_rec numeral_3_eq_3)
    then show ?thesis by (simp add: page0 page1 page_failed)
  qed
  have "scanPages throwsAtSecondChunk examplePages 0 [] =
          scanPages throwsAtSecondChunk examplePages 3
            (foldl pushNew [] (concat (map (\<lambda>p. fetchSearchPage (examplePages p)) [0 ..< 3])))"
    by (subst scanPages.simps)
       (simp add: MAX_PAGES_def PAGE_CONCURRENCY_def notify_example_scanning)
  also have "\<dots> = scanPages throwsAtSecondChunk examplePages 3 nineListed"
    by (simp only: first example_group0)
  also note rest
  finally show ?thesis .
qed

lemma length_nineListed: "length nineListed = 9"
  by (simp add: nineListed_def)

lemma example_phase2:
  "verifyChunks asciiLower throwsAtSecondChunk exampleDetails nineListed 0 [] [] =
     \<lparr>classified = take 8 nineListed, validGames = firstChunk,
      thrown = Some (js ''progress view is gone'')\<rparr>"
proof -
  have second: "verifyChunks asciiLower throwsAtSecondChunk exampleDetails nineListed 8
                  (take 8 nineListed) firstChunk =
     \<lparr>classified = take 8 nineListed, validGames = firstChunk,
      thrown = Some (js ''progress view is gone'')\<rparr>"
    by (subst verifyChunks.simps)
       (simp add: length_nineListed CHUNK_SIZE_def notify_example_deep)
  show ?thesis
    by (subst verifyChunks.simps)
       (simp add: length_nineListed CHUNK_SIZE_def notify_example_deep example_chunk0 second)
qed

lemma example_scan:
  "scanForHighTrafficGames asciiLower throwsAtSecondChunk examplePages exampleDetails =
     \<lparr>discovered = nineListed, verified = take 8 nineListed, returned = Inr firstChunk\<rparr>"
  by (simp add: scanForHighTrafficGames_def example_phase1 example_phase2 length_nineListed
        notify_example_verifying firstChunk_def)

lemma firstChunk_reviews:
  "map reviewsOrZero firstChunk = [2000, 3000, 2000, 2000, 2000, 2000, 2000, 2000]"
  by (simp add: firstChunk_def reviewsOrZero_accepted)

text \<open>
  What holds of the ids in every list that \<^verbatim>\<open>scanForHighTrafficGames\<close> returns, on
  completion or after an error: no two ids are equal by \<^verbatim>\<open>===\<close>, the comparison of the
  source, so the ids that are numbers are pairwise distinct. The same holds of the
  candidates, and the candidates handed to the classifier are a prefix of the candidate
  list in its order, each position once.
\<close>

lemma scan_unique_ids:
  "returned (scanForHighTrafficGames lower onProgress pages details) = Inr games \<Longrightarrow>
     uniqueIds games \<and> distinct (numericIds games) \<and>
     uniqueIds (discovered (scanForHighTrafficGames lower onProgress pages details)) \<and>
     (\<exists>k. verified (scanForHighTrafficGames lower onProgress pages details) =
            take k (discovered (scanForHighTrafficGames lower onProgress pages details)))"
proof -
  assume r: "returned (scanForHighTrafficGames lower onProgress pages details) = Inr games"
  then obtain cands where p1: "scanPages onProgress pages 0 [] = Inr cands"
    by (cases "scanPages onProgress pages 0 []") (simp_all add: scanForHighTrafficGames_def)
  from scanPages_distinct [OF p1] have dc: "distinct (numericIds cands)" by simp
  from r p1 have n: "notify onProgress (Verifying (length cands)) = None"
    by (cases "notify onProgress (Verifying (length cands))")
       (simp_all add: scanForHighTrafficGames_def)
  define v where "v = verifyChunks lower onProgress details cands 0 [] []"
  from p1 n have s: "scanForHighTrafficGames lower onProgress pages details =
      \<lparr>discovered = cands, verified = classified v,
       returned = (case thrown v of
                     Some e \<Rightarrow> if 0 < length (validGames v) then Inr (validGames v) else Inl e
                   | None \<Rightarrow> Inr (sortByReviews (validGames v)))\<rparr>"
    unfolding v_def by (simp add: scanForHighTrafficGames_def Let_def)
  from verifyChunks_prefix [of lower onProgress details cands 0 "[]" "[]" v]
  obtain k where k: "classified v = take k cands"
    and val: "validGames v = verifyFrom lower details 0 (take k cands)"
    by (auto simp: v_def)
  from dc have "distinct (numericIds (validGames v))"
    unfolding val by (intro verifyFrom_distinct numericIds_take)
  moreover from r s have "games = validGames v \<or> games = sortByReviews (validGames v)"
    by (auto split: option.splits if_splits)
  ultimately have "distinct (numericIds games)"
    by (auto simp: sortByReviews_def sort_numericIds)
  with dc k s show ?thesis
    by (auto simp: uniqueIds_iff)
qed

lemma scan_unique_ids_example:
  "returned (scanForHighTrafficGames asciiLower throwsAtSecondChunk examplePages exampleDetails)
     = Inr firstChunk \<and>
   uniqueIds firstChunk \<and> numericIds firstChunk = [1, 2, 3, 4, 5, 6, 7, 8] \<and>
   length (fetchSearchPage (examplePages 0) @ fetchSearchPage (examplePages 1)) = 10 \<and>
   length (discovered
     (scanForHighTrafficGames asciiLower throwsAtSecondChunk examplePages exampleDetails)) = 9"
  using scan_unique_ids [of asciiLower throwsAtSecondChunk examplePages exampleDetails firstChunk]
  by (simp add: example_scan page0 page1 length_nineListed)
     (simp add: firstChunk_def numericIds_def appid_accepted)

lemma nan_page0: "fetchSearchPage (nanPages 0) = nanDiscovered"
  by (simp add: fetchSearchPage_def nanPages_def nanRows_def nanDiscovered_def unnumbered_def
        row_defs)

lemma nan_phase1: "scanPages None nanPages 0 [] = Inr nanDiscovered"
proof -
  have rest: "scanPages None nanPages 3 nanDiscovered = Inr nanDiscovered"
    by (rule scanPages_rest) (simp_all add: fetchSearchPage_def nanPages_def notify_def)
  have first: "concat (map (\<lambda>p. fetchSearchPage (nanPages p)) [0 ..< 3]) = nanDiscovered"
  proof -
    have "[0 ..< 3] = [0, 1, 2::nat]" by (simp add: upt_rec numeral_3_eq_3)
    moreover have "fetchSearchPage (nanPages (Suc 0)) = []" "fetchSearchPage (nanPages 2) = []"
      by (simp_all add: fetchSearchPage_def nanPages_def)
    ultimately show ?thesis by (simp add: nan_page0)
  qed
  have push: "foldl pushNew [] nanDiscovered = nanDiscovered"
    by (simp add: nanDiscovered_def pushNew_def unnumbered_def strictEq_def)
  have "scanPages None nanPages 0 [] =
          scanPages None nanPages 3
            (foldl pushNew [] (concat (map (\<lambda>p. fetchSearchPage (nanPages p)) [0 ..< 3])))"
    by (subst scanPages.simps) (simp add: MAX_PAGES_def PAGE_CONCURRENCY_def notify_def)
  also have "\<dots> = scanPages None nanPages 3 nanDiscovered"
    by (simp only: first push)
  also note rest
  finally show ?thesis .
qed

lemma nan_verify:
  "verifyDomesticGame asciiLower (unnumbered n tip) (exampleDetails k) =
     Some (annotate (unnumbered n tip) windsMeet 999)"
  by (simp add: verifyDomesticGame_def exampleDetails_def classify_def windsMeet_vip)

lemma nan_phase2:
  "verifyChunks asciiLower None exampleDetails nanDiscovered 0 [] [] =
     \<lparr>classified = nanDiscovered,
      validGames = [annotate (unnumbered 2000 ''2,000 user reviews'') windsMeet 999,
                    annotate (unnumbered 3000 ''3,000 user reviews'') windsMeet 999],
      thrown = None\<rparr>"
proof -
  have len: "length nanDiscovered = 2" by (simp add: nanDiscovered_def)
  have second: "verifyChunks asciiLower None exampleDetails nanDiscovered 8 done valid =
      \<lparr>classified = done, validGames = valid, thrown = None\<rparr>" for "done" valid
    by (subst verifyChunks.simps) (simp add: len)
  show ?thesis
    by (subst verifyChunks.simps)
       (simp add: len CHUNK_SIZE_def notify_def second, simp add: nanDiscovered_def nan_verify)
qed

lemma nan_sorted:
  "sortByReviews [annotate (unnumbered 2000 ''2,000 user reviews'') windsMeet 999,
                  annotate (unnumbered 3000 ''3,000 user reviews'') windsMeet 999] = nanReturned"
  by (simp add: sortByReviews_def nanReturned_def reviewsOrZero_def annotate_def unnumbered_def)

text \<open>
  Claim C2 says that the ids of a returned list are pairwise distinct and that the
  discovery phase never appends a result whose id is already in the candidate list. In
  the second example scan two rows carry the id attribute \<^verbatim>\<open>abc\<close>: \<^verbatim>\<open>parseInt\<close> gives
  \<^verbatim>\<open>NaN\<close> for both, the test \<^verbatim>\<open>c.appid === g.appid\<close> is false for \<^verbatim>\<open>NaN\<close>, both rows
  are appended and classified, and the returned list holds the id \<^verbatim>\<open>NaN\<close> twice.
\<close>

theorem scan_repeats_nan_id:
  "discovered (scanForHighTrafficGames asciiLower None nanPages exampleDetails) = nanDiscovered \<and>
   map appid nanDiscovered = [None, None] \<and>
   returned (scanForHighTrafficGames asciiLower None nanPages exampleDetails) = Inr nanReturned \<and>
   map appid nanReturned = [None, None] \<and>
   \<not> distinct (map appid nanReturned)"
  by (simp add: scanForHighTrafficGames_def nan_phase1 nan_phase2 nan_sorted notify_def)
     (simp add: nanDiscovered_def nanReturned_def unnumbered_def annotate_def)

text \<open>
  Claim C3 includes the list returned after an error. In the example scan the callback
  throws at the second chunk, after the first chunk validated eight games, and
  \<^verbatim>\<open>scanForHighTrafficGames\<close> returns \<^verbatim>\<open>validGames\<close> as it is, in the order of
  discovery: the review counts 2000, 3000, 2000, ... are not in descending order. Only
  the return after the \<^verbatim>\<open>try\<close> statement sorts (\<open>scan_completed_sorted\<close> below).
\<close>

theorem scan_partial_unsorted:
  "returned (scanForHighTrafficGames asciiLower throwsAtSecondChunk examplePages exampleDetails)
     = Inr firstChunk \<and>
   map reviewsOrZero firstChunk = [2000, 3000, 2000, 2000, 2000, 2000, 2000, 2000] \<and>
   \<not> sortedByReviews firstChunk"
  by (simp add: example_scan firstChunk_reviews sortedByReviews_def firstChunk_def
        reviewsOrZero_accepted)

lemma scanPages_quiet:
  "\<forall>msg. notify onProgress msg = None \<Longrightarrow> \<exists>cands. scanPages onProgress pages page cs = Inr cands"
proof (induction onProgress pages page cs rule: scanPages.induct)
  case (1 onProgress pages page candidates)
  show ?case
  proof (cases "page < MAX_PAGES")
    case False
    then show ?thesis by (subst scanPages.simps) simp
  next
    case True
    from "1.prems" have none: "notify onProgress
        (Scanning (page + 1) (min (page + PAGE_CONCURRENCY) MAX_PAGES) MAX_PAGES) = None"
      by simp
    from "1.IH" [OF True none "1.prems"] True none show ?thesis
      by (subst scanPages.simps) simp
  qed
qed

lemma verifyChunks_quiet:
  "\<forall>msg. notify onProgress msg = None \<Longrightarrow>
     thrown (verifyChunks lower onProgress details cands i done valid) = None"
proof (induction lower onProgress details cands i "done" valid rule: verifyChunks.induct)
  case (1 lower onProgress details candidates i "done" valid)
  show ?case
  proof (cases "i < length candidates")
    case False
    then show ?thesis by (subst verifyChunks.simps) simp
  next
    case True
    from "1.prems" have none: "notify onProgress
        (Deep (min (i + CHUNK_SIZE) (length candidates)) (length candidates)) = None"
      by simp
    from "1.IH" [OF True none "1.prems"] True none show ?thesis
      by (subst verifyChunks.simps) simp
  qed
qed

text \<open>A scan whose callback never throws returns a list in descending order of the
  review count.\<close>

lemma scan_completed_sorted:
  assumes quiet: "\<forall>msg. notify onProgress msg = None"
  shows "\<exists>games. returned (scanForHighTrafficGames lower onProgress pages details) = Inr games \<and>
           sortedByReviews games"
proof -
  from scanPages_quiet [OF quiet] obtain cands
    where p1: "scanPages onProgress pages 0 [] = Inr cands" by blast
  from p1 quiet verifyChunks_quiet [OF quiet] show ?thesis
    by (simp add: scanForHighTrafficGames_def Let_def sortByReviews_sorted)
qed

end
